theory Spec2Isabelle
  imports Complex_Main "HOL-Library.Char_ord" "HOL-Library.List_Lexorder" "HOL-Library.Log_Nat"
begin

section \<open>Data model (weather/types.ts, config.ts)\<close>

text \<open>
  A JavaScript number is a real, meant to be a finite double (no NaN); the result of every
  arithmetic operation is rounded to a double (section "Numbers"). Day counts and epoch
  seconds are integers. An optional property is an \<open>option\<close>. A thrown \<open>Error\<close> is the
  value \<open>Error msg\<close> on the left of a sum. Record fields carry a prefix where two interfaces
  of the source share a field name.
\<close>

datatype units = Metric | Imperial

datatype error = Error string

record location_query =
  q_city :: "string option"
  q_country :: "string option"
  q_lat :: "real option"
  q_lon :: "real option"

record location =
  loc_name :: string
  loc_lat :: real
  loc_lon :: real
  loc_country :: "string option"

record condition =
  cond_text :: "string option"
  cond_iconUrl :: "string option"
  cond_code :: "int option"

text \<open>\<open>observedAt\<close> is kept as an instant (epoch milliseconds) instead of its ISO rendering.\<close>

record current_weather =
  provider :: string
  location :: location
  observedAt :: int
  temperatureC :: real
  temperatureF :: real
  feelsLikeC :: "real option"
  feelsLikeF :: "real option"
  humidity :: "real option"
  windKph :: "real option"
  windMph :: "real option"
  windDir :: "string option"
  pressureMb :: "real option"
  uv :: "real option"
  condition :: condition

record historical_weather = current_weather +
  h_date :: string

record forecast_day =
  fd_date :: string
  avgTempC :: "real option"
  avgTempF :: "real option"
  maxTempC :: "real option"
  maxTempF :: "real option"
  minTempC :: "real option"
  minTempF :: "real option"
  chanceOfRainPct :: "real option"
  chanceOfSnowPct :: "real option"
  fd_condition :: condition

record forecast =
  f_provider :: string
  f_location :: location
  days :: "forecast_day list"

record config =
  openWeatherApiKey :: string
  weatherApiKey :: string
  defaultUnits :: units
  cacheTtlSeconds :: int
  forecastCacheTtlSeconds :: int

text \<open>Truthiness of an optional string: \<open>undefined\<close> and the empty string are falsy.\<close>

fun truthy_str :: "string option \<Rightarrow> bool" where
  "truthy_str None = False"
| "truthy_str (Some s) = (s \<noteq> [])"

fun truthy_num :: "real option \<Rightarrow> bool" where
  "truthy_num None = False"
| "truthy_num (Some x) = (x \<noteq> 0)"

fun truthy_int :: "int option \<Rightarrow> bool" where
  "truthy_int None = False"
| "truthy_int (Some x) = (x \<noteq> 0)"

section \<open>Numbers\<close>

text \<open>
  The arithmetic of the source is that of IEEE 754 binary64: each operation gives the double
  nearest to the exact result, a tie going to the even significand. \<open>to_double\<close> is that
  rounding: \<open>ilog2 a\<close> is the binary exponent of \<open>a > 0\<close>, the spacing of the doubles around
  \<open>x\<close> is \<open>2 ^ (e - 52)\<close>, the exponent not going below that of the subnormal numbers. A
  decimal literal denotes the double nearest to it. A result of magnitude \<open>2 ^ 1024\<close> or more
  stands for \<open>\<plusminus>Infinity\<close>: like it, it lies beyond every double. Division is only used with a
  divisor that is not zero.
\<close>

definition pow2 :: "int \<Rightarrow> real" where
  "pow2 k = (if 0 \<le> k then 2 ^ nat k else 1 / 2 ^ nat (- k))"

definition ilog2 :: "real \<Rightarrow> int" where
  "ilog2 a = (if 1 \<le> a then bitlen \<lfloor>a\<rfloor> - 1 else - bitlen (\<lceil>1 / a\<rceil> - 1))"

definition round_even :: "real \<Rightarrow> int" where
  "round_even m =
     (let f = \<lfloor>m\<rfloor>; r = m - of_int f in
      if r < 1 / 2 then f else if 1 / 2 < r then f + 1 else if even f then f else f + 1)"

definition to_double :: "real \<Rightarrow> real" where
  "to_double x =
     (if x = 0 then 0
      else
        (let e = max (ilog2 \<bar>x\<bar>) (- 1022); q = pow2 (e - 52)
         in sgn x * of_int (round_even (\<bar>x\<bar> / q)) * q))"

definition js_add :: "real \<Rightarrow> real \<Rightarrow> real" where
  "js_add x y = to_double (x + y)"

definition js_sub :: "real \<Rightarrow> real \<Rightarrow> real" where
  "js_sub x y = to_double (x - y)"

definition js_mul :: "real \<Rightarrow> real \<Rightarrow> real" where
  "js_mul x y = to_double (x * y)"

definition js_div :: "real \<Rightarrow> real \<Rightarrow> real" where
  "js_div x y = to_double (x / y)"

section \<open>Upstream services\<close>

text \<open>
  An adapter builds a URL from the resolved location and issues one \<open>axios.get\<close>. The URL is
  kept structured: the resolved location (\<open>location_param\<close>) and the endpoint's parameters
  make a \<open>request\<close>; the API key and percent-encoding are left out. The upstream services
  are a parameter: for each endpoint a function from the request parameters to either the
  error that \<open>axios.get\<close> (or the reading of a malformed body) throws, or the fields of the
  body that the adapter reads.
\<close>

datatype location_param = ByCoords real real | ByCity string "string option"

datatype request =
    WA_Current location_param
  | WA_Forecast location_param int
  | WA_History location_param string
  | OW_Current location_param units
  | OW_Forecast location_param units

record wa_current_part =
  last_updated :: "int option"
  temp_c :: real
  temp_f :: real
  feelslike_c :: "real option"
  feelslike_f :: "real option"
  wa_humidity :: "real option"
  wind_kph :: "real option"
  wind_mph :: "real option"
  wind_dir :: "string option"
  pressure_mb :: "real option"
  wa_uv :: "real option"
  wa_condition :: "condition option"

record wa_current_raw =
  wc_location :: location
  wc_current :: wa_current_part

record wa_day_part =
  avgtemp_c :: "real option"
  avgtemp_f :: "real option"
  maxtemp_c :: "real option"
  maxtemp_f :: "real option"
  mintemp_c :: "real option"
  mintemp_f :: "real option"
  avghumidity :: "real option"
  maxwind_kph :: "real option"
  maxwind_mph :: "real option"
  daily_chance_of_rain :: "real option"
  daily_chance_of_snow :: "real option"
  day_condition :: "condition option"

text \<open>
  A \<open>forecastday\<close> entry: its \<open>date\<close> string, the instant that \<open>new Date(date)\<close> parses it to,
  and the optional \<open>day\<close> object.
\<close>

record wa_forecastday =
  wfd_date :: "string option"
  wfd_instant :: int
  wfd_day :: "wa_day_part option"

record wa_forecast_raw =
  wf_location :: location
  wf_forecastday :: "wa_forecastday list option"

record wa_history_raw =
  wh_location :: location
  wh_forecastday :: "wa_forecastday list option"
  wh_current :: "wa_current_part option"

record ow_weather =
  description :: "string option"
  ow_icon :: "string option"
  ow_id :: "int option"

record ow_current_raw =
  oc_name :: "string option"
  oc_lat :: real
  oc_lon :: real
  oc_country :: "string option"
  oc_dt :: int
  oc_temp :: real
  oc_feels_like :: real
  oc_humidity :: "real option"
  oc_wind_speed :: real
  oc_wind_deg :: "real option"
  oc_pressure :: "real option"
  oc_weather0 :: "ow_weather option"

text \<open>One 3-hour slot of the OpenWeather forecast list.\<close>

record ow_slot =
  dt :: int
  main_temp :: real
  rain_3h :: "real option"
  snow_3h :: "real option"
  weather0 :: "ow_weather option"

record ow_forecast_raw =
  of_name :: "string option"
  of_lat :: real
  of_lon :: real
  of_country :: "string option"
  of_list :: "ow_slot list"

record upstream =
  wa_current_api :: "location_param \<Rightarrow> error + wa_current_raw"
  wa_forecast_api :: "location_param \<Rightarrow> int \<Rightarrow> error + wa_forecast_raw"
  wa_history_api :: "location_param \<Rightarrow> string \<Rightarrow> error + wa_history_raw"
  ow_current_api :: "location_param \<Rightarrow> units \<Rightarrow> error + ow_current_raw"
  ow_forecast_api :: "location_param \<Rightarrow> units \<Rightarrow> error + ow_forecast_raw"

text \<open>
  The result of an adapter call: what it returns or throws, and the requests it issued.
\<close>

type_synonym 'a adapter_result = "(error + 'a) \<times> request list"

section \<open>WeatherAPI adapter (weather/providers/weatherApi.ts)\<close>

definition resolveQuery :: "location_query \<Rightarrow> error + location_param" where
  "resolveQuery q =
     (case (q_lat q, q_lon q) of
        (Some la, Some lo) \<Rightarrow> Inr (ByCoords la lo)
      | _ \<Rightarrow>
        (case q_city q of
           Some c \<Rightarrow>
             (if c \<noteq> [] then
                Inr (ByCity c (if truthy_str (q_country q) then q_country q else None))
              else Inl (Error ''WeatherAPI: provide city or lat/lon''))
         | None \<Rightarrow> Inl (Error ''WeatherAPI: provide city or lat/lon'')))"

definition opt_condition :: "condition option \<Rightarrow> condition" where
  "opt_condition c =
     (case c of
        None \<Rightarrow> \<lparr>cond_text = None, cond_iconUrl = None, cond_code = None\<rparr>
      | Some c' \<Rightarrow> c')"

definition wa_getCurrent :: "upstream \<Rightarrow> int \<Rightarrow> location_query \<Rightarrow> current_weather adapter_result" where
  "wa_getCurrent up now q =
     (case resolveQuery q of
        Inl e \<Rightarrow> (Inl e, [])
      | Inr qStr \<Rightarrow>
        (case wa_current_api up qStr of
           Inl e \<Rightarrow> (Inl e, [WA_Current qStr])
         | Inr d \<Rightarrow>
           (let c = wc_current d in
            (Inr \<lparr>provider = ''weatherapi'',
                  location = wc_location d,
                  observedAt = (case last_updated c of Some t \<Rightarrow> t | None \<Rightarrow> now),
                  temperatureC = temp_c c,
                  temperatureF = temp_f c,
                  feelsLikeC = feelslike_c c,
                  feelsLikeF = feelslike_f c,
                  humidity = wa_humidity c,
                  windKph = wind_kph c,
                  windMph = wind_mph c,
                  windDir = wind_dir c,
                  pressureMb = pressure_mb c,
                  uv = wa_uv c,
                  condition = opt_condition (wa_condition c)\<rparr>,
             [WA_Current qStr]))))"

definition day_field :: "(wa_day_part \<Rightarrow> 'a option) \<Rightarrow> wa_day_part option \<Rightarrow> 'a option" where
  "day_field f d = (case d of None \<Rightarrow> None | Some d' \<Rightarrow> f d')"

definition wa_forecast_day :: "wa_forecastday \<Rightarrow> forecast_day" where
  "wa_forecast_day fd =
     \<lparr>fd_date = (case wfd_date fd of Some s \<Rightarrow> s | None \<Rightarrow> []),
      avgTempC = day_field avgtemp_c (wfd_day fd),
      avgTempF = day_field avgtemp_f (wfd_day fd),
      maxTempC = day_field maxtemp_c (wfd_day fd),
      maxTempF = day_field maxtemp_f (wfd_day fd),
      minTempC = day_field mintemp_c (wfd_day fd),
      minTempF = day_field mintemp_f (wfd_day fd),
      chanceOfRainPct = day_field daily_chance_of_rain (wfd_day fd),
      chanceOfSnowPct = day_field daily_chance_of_snow (wfd_day fd),
      fd_condition = opt_condition (day_field day_condition (wfd_day fd))\<rparr>"

definition wa_getForecast :: "upstream \<Rightarrow> location_query \<Rightarrow> int \<Rightarrow> forecast adapter_result" where
  "wa_getForecast up q n =
     (case resolveQuery q of
        Inl e \<Rightarrow> (Inl e, [])
      | Inr qStr \<Rightarrow>
        (case wa_forecast_api up qStr n of
           Inl e \<Rightarrow> (Inl e, [WA_Forecast qStr n])
         | Inr d \<Rightarrow>
           (Inr \<lparr>f_provider = ''weatherapi'',
                 f_location = wf_location d,
                 days = map wa_forecast_day
                          (case wf_forecastday d of None \<Rightarrow> [] | Some fds \<Rightarrow> fds)\<rparr>,
            [WA_Forecast qStr n])))"

definition first_day :: "wa_forecastday list option \<Rightarrow> wa_forecastday option" where
  "first_day fds = (case fds of Some (fd # _) \<Rightarrow> Some fd | _ \<Rightarrow> None)"

definition cur_field :: "(wa_current_part \<Rightarrow> 'a option) \<Rightarrow> wa_current_part option \<Rightarrow> 'a option" where
  "cur_field f c = (case c of None \<Rightarrow> None | Some c' \<Rightarrow> f c')"

definition orElse :: "'a option \<Rightarrow> 'a option \<Rightarrow> 'a option" where
  "orElse a b = (case a of Some x \<Rightarrow> Some x | None \<Rightarrow> b)"

definition wa_getHistorical ::
  "upstream \<Rightarrow> int \<Rightarrow> location_query \<Rightarrow> string \<Rightarrow> historical_weather adapter_result" where
  "wa_getHistorical up now q dateISO =
     (case resolveQuery q of
        Inl e \<Rightarrow> (Inl e, [])
      | Inr qStr \<Rightarrow>
        (case wa_history_api up qStr (take 10 dateISO) of
           Inl e \<Rightarrow> (Inl e, [WA_History qStr (take 10 dateISO)])
         | Inr d \<Rightarrow>
           (let day = first_day (wh_forecastday d);
                dd = (case day of None \<Rightarrow> None | Some fd \<Rightarrow> wfd_day fd);
                ddate = (case day of None \<Rightarrow> None | Some fd \<Rightarrow> wfd_date fd);
                cur = wh_current d in
            (Inr \<lparr>provider = ''weatherapi'',
                  location = wh_location d,
                  observedAt =
                    (case day of
                       Some fd \<Rightarrow> (if truthy_str (wfd_date fd) then wfd_instant fd else now)
                     | None \<Rightarrow> now),
                  temperatureC =
                    (case orElse (day_field avgtemp_c dd) (cur_field (\<lambda>c. Some (temp_c c)) cur) of
                       Some t \<Rightarrow> t | None \<Rightarrow> 0),
                  temperatureF =
                    (case orElse (day_field avgtemp_f dd) (cur_field (\<lambda>c. Some (temp_f c)) cur) of
                       Some t \<Rightarrow> t | None \<Rightarrow> 0),
                  feelsLikeC = cur_field feelslike_c cur,
                  feelsLikeF = cur_field feelslike_f cur,
                  humidity = orElse (day_field avghumidity dd) (cur_field wa_humidity cur),
                  windKph = orElse (day_field maxwind_kph dd) (cur_field wind_kph cur),
                  windMph = orElse (day_field maxwind_mph dd) (cur_field wind_mph cur),
                  windDir = cur_field wind_dir cur,
                  pressureMb = cur_field pressure_mb cur,
                  uv = cur_field wa_uv cur,
                  condition = opt_condition (day_field day_condition dd),
                  h_date = (if truthy_str ddate then (case ddate of Some s \<Rightarrow> s | None \<Rightarrow> [])
                            else take 10 dateISO)\<rparr>,
             [WA_History qStr (take 10 dateISO)]))))"

section \<open>OpenWeather adapter (weather/providers/openWeather.ts)\<close>

definition unitsParam :: "units \<Rightarrow> units" where
  "unitsParam u = (if u = Imperial then Imperial else Metric)"

definition resolveQueryParams :: "location_query \<Rightarrow> error + location_param" where
  "resolveQueryParams q =
     (case (q_lat q, q_lon q) of
        (Some la, Some lo) \<Rightarrow> Inr (ByCoords la lo)
      | _ \<Rightarrow>
        (case q_city q of
           Some c \<Rightarrow>
             (if c \<noteq> [] then
                Inr (ByCity c (if truthy_str (q_country q) then q_country q else None))
              else Inl (Error ''OpenWeather: provide city or lat/lon''))
         | None \<Rightarrow> Inl (Error ''OpenWeather: provide city or lat/lon'')))"

subsection \<open>Dates\<close>

text \<open>
  \<open>new Date(ms).toISOString()\<close> throws a RangeError when the time value is outside
  \<open>\<plusminus>8.64e15\<close> milliseconds. Otherwise the text starts with the UTC calendar date: the year with
  four digits when it lies in 0..9999 and with a sign and six digits otherwise, then month and
  day with two digits. The day number is the number of whole days since 1970-01-01, and the
  calendar is the proleptic Gregorian one, computed as the language standard defines it.
  \<open>day_text\<close> is the first ten characters of the text for a day number.
\<close>

definition js_time_valid :: "int \<Rightarrow> bool" where
  "js_time_valid ms = (\<bar>ms\<bar> \<le> 8640000000000000)"

definition digit_char :: "int \<Rightarrow> char" where
  "digit_char n = ''0123456789'' ! nat (n mod 10)"

fun pad_num :: "nat \<Rightarrow> int \<Rightarrow> string" where
  "pad_num 0 n = []"
| "pad_num (Suc w) n = pad_num w (n div 10) @ [digit_char n]"

text \<open>
  \<open>dayFromYear y\<close> is the day number of the first day of year \<open>y\<close>, \<open>yearFromDay\<close> the year
  a day falls in (the largest year whose first day is not after it, found next to an
  estimate by the mean length of a year), \<open>monthFromDay\<close> and \<open>dateFromDay\<close> the month
  (from 0) and the day of the month of the day \<open>dw\<close> within a year, \<open>l\<close> being 1 in a leap
  year and 0 otherwise.
\<close>

definition dayFromYear :: "int \<Rightarrow> int" where
  "dayFromYear y = 365 * (y - 1970) + (y - 1969) div 4 - (y - 1901) div 100 + (y - 1601) div 400"

definition yearFromDay :: "int \<Rightarrow> int" where
  "yearFromDay day =
     (let c = 1970 + (day * 400) div 146097 in
      if dayFromYear (c + 1) \<le> day then c + 1
      else if dayFromYear c \<le> day then c
      else c - 1)"

definition inLeapYear :: "int \<Rightarrow> bool" where
  "inLeapYear y =
     (if y mod 4 \<noteq> 0 then False
      else if y mod 100 \<noteq> 0 then True
      else if y mod 400 \<noteq> 0 then False
      else True)"

definition monthFromDay :: "int \<Rightarrow> int \<Rightarrow> int" where
  "monthFromDay l dw =
     (if dw < 31 then 0
      else if dw < 59 + l then 1
      else if dw < 90 + l then 2
      else if dw < 120 + l then 3
      else if dw < 151 + l then 4
      else if dw < 181 + l then 5
      else if dw < 212 + l then 6
      else if dw < 243 + l then 7
      else if dw < 273 + l then 8
      else if dw < 304 + l then 9
      else if dw < 334 + l then 10
      else 11)"

definition dateFromDay :: "int \<Rightarrow> int \<Rightarrow> int" where
  "dateFromDay l dw =
     (let m = monthFromDay l dw in
      if m = 0 then dw + 1
      else if m = 1 then dw - 30
      else if m = 2 then dw - 58 - l
      else if m = 3 then dw - 89 - l
      else if m = 4 then dw - 119 - l
      else if m = 5 then dw - 150 - l
      else if m = 6 then dw - 180 - l
      else if m = 7 then dw - 211 - l
      else if m = 8 then dw - 242 - l
      else if m = 9 then dw - 272 - l
      else if m = 10 then dw - 303 - l
      else dw - 333 - l)"

definition year_str :: "int \<Rightarrow> string" where
  "year_str y =
     (if 0 \<le> y \<and> y \<le> 9999 then pad_num 4 y
      else (if y < 0 then ''-'' else ''+'') @ pad_num 6 (if y < 0 then - y else y))"

definition day_text :: "int \<Rightarrow> string" where
  "day_text day =
     (let y = yearFromDay day;
          l = (if inLeapYear y then 1 else 0);
          dw = day - dayFromYear y
      in take 10 (year_str y @ ''-'' @ pad_num 2 (monthFromDay l dw + 1)
                  @ ''-'' @ pad_num 2 (dateFromDay l dw)))"

definition toISODate :: "int \<Rightarrow> string" where
  "toISODate ms = day_text (ms div 86400000)"

subsection \<open>Current conditions\<close>

definition ow_condition :: "ow_weather option \<Rightarrow> condition" where
  "ow_condition w =
     \<lparr>cond_text =
        (case w of
           Some w' \<Rightarrow> (if truthy_str (description w') then description w' else Some ''Unknown'')
         | None \<Rightarrow> Some ''Unknown''),
      cond_iconUrl =
        (case w of
           Some w' \<Rightarrow>
             (case ow_icon w' of
                Some i \<Rightarrow>
                  (if i \<noteq> [] then Some (''https://openweathermap.org/img/wn/'' @ i @ ''@2x.png'')
                   else None)
              | None \<Rightarrow> None)
         | None \<Rightarrow> None),
      cond_code = (case w of Some w' \<Rightarrow> ow_id w' | None \<Rightarrow> None)\<rparr>"

text \<open>
  The texts \<open>`${lat},${lon}`\<close> and \<open>`${deg}`\<close> need the rendering of a number, which is a
  parameter (\<open>num_str\<close>).
\<close>

definition ow_getCurrent ::
  "(real \<Rightarrow> string) \<Rightarrow> upstream \<Rightarrow> location_query \<Rightarrow> units \<Rightarrow> current_weather adapter_result" where
  "ow_getCurrent num_str up q u =
     (case resolveQueryParams q of
        Inl e \<Rightarrow> (Inl e, [])
      | Inr params \<Rightarrow>
        (case ow_current_api up params (unitsParam u) of
           Inl e \<Rightarrow> (Inl e, [OW_Current params (unitsParam u)])
         | Inr d \<Rightarrow>
           (if \<not> js_time_valid (oc_dt d * 1000) then
              (Inl (Error ''Invalid time value''), [OW_Current params (unitsParam u)])
            else
              (Inr \<lparr>provider = ''openweather'',
                    location =
                      \<lparr>loc_name =
                         (case oc_name d of
                            Some n \<Rightarrow>
                              (if n \<noteq> [] then n
                               else num_str (oc_lat d) @ '','' @ num_str (oc_lon d))
                          | None \<Rightarrow> num_str (oc_lat d) @ '','' @ num_str (oc_lon d)),
                       loc_lat = oc_lat d, loc_lon = oc_lon d, loc_country = oc_country d\<rparr>,
                    observedAt = oc_dt d * 1000,
                    temperatureC =
                      (if u = Metric then oc_temp d
                       else js_mul (js_sub (oc_temp d) 32) (js_div 5 9)),
                    temperatureF =
                      (if u = Imperial then oc_temp d
                       else js_add (js_mul (oc_temp d) (js_div 9 5)) 32),
                    feelsLikeC =
                      Some (if u = Metric then oc_feels_like d
                            else js_mul (js_sub (oc_feels_like d) 32) (js_div 5 9)),
                    feelsLikeF =
                      Some (if u = Imperial then oc_feels_like d
                            else js_add (js_mul (oc_feels_like d) (js_div 9 5)) 32),
                    humidity = oc_humidity d,
                    windKph =
                      Some (if u = Metric then js_mul (oc_wind_speed d) (to_double 3.6)
                            else js_mul (oc_wind_speed d) (to_double 1.60934)),
                    windMph =
                      Some (if u = Imperial then oc_wind_speed d
                            else js_div (js_mul (oc_wind_speed d) (to_double 3.6))
                                   (to_double 1.60934)),
                    windDir =
                      (case oc_wind_deg d of
                         Some g \<Rightarrow> Some (num_str g @ [CHR 0xB0])
                       | None \<Rightarrow> None),
                    pressureMb = oc_pressure d,
                    uv = None,
                    condition = ow_condition (oc_weather0 d)\<rparr>,
               [OW_Current params (unitsParam u)]))))"

subsection \<open>Forecast: 3-hour slots aggregated into days\<close>

record day_bucket =
  tempsC :: "real list"
  tempsF :: "real list"
  rainSlots :: nat
  snowSlots :: nat
  totalSlots :: nat
  condText :: "string option"
  icon :: "string option"
  code :: "int option"

definition empty_bucket :: day_bucket where
  "empty_bucket =
     \<lparr>tempsC = [], tempsF = [], rainSlots = 0, snowSlots = 0, totalSlots = 0,
      condText = None, icon = None, code = None\<rparr>"

definition slot_tempC :: "units \<Rightarrow> ow_slot \<Rightarrow> real" where
  "slot_tempC u item =
     (if u = Metric then main_temp item else js_mul (js_sub (main_temp item) 32) (js_div 5 9))"

definition slot_tempF :: "units \<Rightarrow> ow_slot \<Rightarrow> real" where
  "slot_tempF u item =
     (if u = Imperial then main_temp item else js_add (js_mul (main_temp item) (js_div 9 5)) 32)"

definition slot_rain :: "ow_slot \<Rightarrow> bool" where
  "slot_rain item = truthy_num (rain_3h item)"

definition slot_snow :: "ow_slot \<Rightarrow> bool" where
  "slot_snow item = truthy_num (snow_3h item)"

text \<open>The body of the loop after the bucket of the slot's date exists.\<close>

definition add_slot :: "units \<Rightarrow> ow_slot \<Rightarrow> day_bucket \<Rightarrow> day_bucket" where
  "add_slot u item b =
     (let cond = weather0 item in
      \<lparr>tempsC = tempsC b @ [slot_tempC u item],
       tempsF = tempsF b @ [slot_tempF u item],
       rainSlots = (if slot_rain item then rainSlots b + 1 else rainSlots b),
       snowSlots = (if slot_snow item then snowSlots b + 1 else snowSlots b),
       totalSlots = totalSlots b + 1,
       condText =
         (case cond of
            Some w \<Rightarrow> (if truthy_str (description w) then description w else condText b)
          | None \<Rightarrow> condText b),
       icon =
         (case cond of
            Some w \<Rightarrow> (if truthy_str (ow_icon w) then ow_icon w else icon b)
          | None \<Rightarrow> icon b),
       code =
         (case cond of
            Some w \<Rightarrow> (if truthy_int (ow_id w) then ow_id w else code b)
          | None \<Rightarrow> code b)\<rparr>)"

text \<open>
  \<open>byDate\<close> is an object used as a dictionary; its keys keep insertion order, so it is an
  association list with distinct keys, a new key going to the end.
\<close>

type_synonym byDate = "(string \<times> day_bucket) list"

definition upsert :: "string \<Rightarrow> (day_bucket \<Rightarrow> day_bucket) \<Rightarrow> byDate \<Rightarrow> byDate" where
  "upsert k f bd =
     (case map_of bd k of
        None \<Rightarrow> bd @ [(k, f empty_bucket)]
      | Some _ \<Rightarrow> map (\<lambda>(k', b). if k' = k then (k', f b) else (k', b)) bd)"

fun bucket_slots :: "units \<Rightarrow> ow_slot list \<Rightarrow> byDate \<Rightarrow> error + byDate" where
  "bucket_slots u [] bd = Inr bd"
| "bucket_slots u (item # rest) bd =
     (if \<not> js_time_valid (dt item * 1000) then Inl (Error ''Invalid time value'')
      else bucket_slots u rest (upsert (toISODate (dt item * 1000)) (add_slot u item) bd))"

text \<open>\<open>xs.slice(0, n)\<close>: a negative end counts from the end of the array.\<close>

definition slice0 :: "int \<Rightarrow> 'a list \<Rightarrow> 'a list" where
  "slice0 n xs = (if n < 0 then take (nat (int (length xs) + n)) xs else take (nat n) xs)"

text \<open>
  Mean and extrema of a list: \<open>xs.reduce((a, b) => a + b, 0) / xs.length\<close> adds from the left,
  starting with 0, and divides. On the empty list JavaScript gives \<open>NaN\<close> and
  \<open>\<plusminus>Infinity\<close>, which are not reals: the model gives \<open>None\<close> there.
\<close>

definition js_mean :: "real list \<Rightarrow> real option" where
  "js_mean xs = (if xs = [] then None else Some (js_div (foldl js_add 0 xs) (real (length xs))))"

fun js_max :: "real list \<Rightarrow> real option" where
  "js_max [] = None"
| "js_max (x # xs) = Some (fold max xs x)"

fun js_min :: "real list \<Rightarrow> real option" where
  "js_min [] = None"
| "js_min (x # xs) = Some (fold min xs x)"

text \<open>
  \<open>Math.round\<close> gives the integer nearest to its argument, a half going upwards, as \<open>round\<close>
  does; its argument is the double \<open>(k / n) * 100\<close>.
\<close>

definition slot_pct :: "nat \<Rightarrow> nat \<Rightarrow> real option" where
  "slot_pct k n =
     (if n \<noteq> 0 then Some (of_int (round (js_mul (js_div (real k) (real n)) 100))) else None)"

definition mk_day :: "string \<Rightarrow> day_bucket \<Rightarrow> forecast_day" where
  "mk_day date rec =
     \<lparr>fd_date = date,
      avgTempC = js_mean (tempsC rec),
      avgTempF = js_mean (tempsF rec),
      maxTempC = js_max (tempsC rec),
      maxTempF = js_max (tempsF rec),
      minTempC = js_min (tempsC rec),
      minTempF = js_min (tempsF rec),
      chanceOfRainPct = slot_pct (rainSlots rec) (totalSlots rec),
      chanceOfSnowPct = slot_pct (snowSlots rec) (totalSlots rec),
      fd_condition =
        \<lparr>cond_text = condText rec,
         cond_iconUrl =
           (if truthy_str (icon rec)
            then Some (''https://openweathermap.org/img/wn/''
                       @ (case icon rec of Some i \<Rightarrow> i | None \<Rightarrow> []) @ ''@2x.png'')
            else None),
         cond_code = code rec\<rparr>\<rparr>"

text \<open>Reading a property of \<open>byDate[date]\<close> throws a TypeError when the key is missing.\<close>

fun daysOut :: "byDate \<Rightarrow> string list \<Rightarrow> error + forecast_day list" where
  "daysOut bd [] = Inr []"
| "daysOut bd (date # ds) =
     (case map_of bd date of
        None \<Rightarrow> Inl (Error ''Cannot read properties of undefined'')
      | Some rec \<Rightarrow>
        (case daysOut bd ds of
           Inl e \<Rightarrow> Inl e
         | Inr out \<Rightarrow> Inr (mk_day date rec # out)))"

definition forecast_days :: "units \<Rightarrow> int \<Rightarrow> ow_slot list \<Rightarrow> error + forecast_day list" where
  "forecast_days u n items =
     (case bucket_slots u items [] of
        Inl e \<Rightarrow> Inl e
      | Inr bd \<Rightarrow> daysOut bd (slice0 n (sort (map fst bd))))"

definition ow_getForecast ::
  "(real \<Rightarrow> string) \<Rightarrow> upstream \<Rightarrow> location_query \<Rightarrow> units \<Rightarrow> int \<Rightarrow> forecast adapter_result" where
  "ow_getForecast num_str up q u n =
     (case resolveQueryParams q of
        Inl e \<Rightarrow> (Inl e, [])
      | Inr params \<Rightarrow>
        (case ow_forecast_api up params (unitsParam u) of
           Inl e \<Rightarrow> (Inl e, [OW_Forecast params (unitsParam u)])
         | Inr d \<Rightarrow>
           (case forecast_days u n (of_list d) of
              Inl e \<Rightarrow> (Inl e, [OW_Forecast params (unitsParam u)])
            | Inr ds \<Rightarrow>
              (Inr \<lparr>f_provider = ''openweather'',
                    f_location =
                      \<lparr>loc_name =
                         (case of_name d of
                            Some n' \<Rightarrow>
                              (if n' \<noteq> [] then n'
                               else num_str (of_lat d) @ '','' @ num_str (of_lon d))
                          | None \<Rightarrow> num_str (of_lat d) @ '','' @ num_str (of_lon d)),
                       loc_lat = of_lat d, loc_lon = of_lon d, loc_country = of_country d\<rparr>,
                    days = ds\<rparr>,
               [OW_Forecast params (unitsParam u)]))))"

text \<open>\<open>getHistorical\<close> of this adapter takes no argument and resolves to \<open>null\<close>.\<close>

definition ow_getHistorical :: "historical_weather option adapter_result" where
  "ow_getHistorical = (Inr None, [])"

section \<open>Cache\<close>

text \<open>
  Modelled from the spec: the \<open>lru-cache\<close> package, which the aggregator imports, is not part
  of the sources. A store is bounded and time-expiring: \<open>get\<close> returns a value only if the key
  is present and unexpired, an entry being absent once \<open>now - insertedAt > ttl\<close> (it is then
  dropped), and a hit makes the entry the most recently used; \<open>set\<close> inserts or replaces with
  age zero and evicts the least recently used entries beyond the capacity. The list holds
  (key, value, insertedAt), the most recently used entry first.
\<close>

type_synonym ('k, 'v) lru = "('k \<times> 'v \<times> int) list"

definition lru_get :: "int \<Rightarrow> int \<Rightarrow> 'k \<Rightarrow> ('k, 'v) lru \<Rightarrow> 'v option \<times> ('k, 'v) lru" where
  "lru_get ttl now k c =
     (case map_of c k of
        None \<Rightarrow> (None, c)
      | Some (v, t) \<Rightarrow>
          (if now - t > ttl then (None, filter (\<lambda>e. fst e \<noteq> k) c)
           else (Some v, (k, v, t) # filter (\<lambda>e. fst e \<noteq> k) c)))"

definition lru_set :: "nat \<Rightarrow> int \<Rightarrow> 'k \<Rightarrow> 'v \<Rightarrow> ('k, 'v) lru \<Rightarrow> ('k, 'v) lru" where
  "lru_set cap now k v c = take cap ((k, v, now) # filter (\<lambda>e. fst e \<noteq> k) c)"

section \<open>Aggregator (weather/aggregator.ts)\<close>

text \<open>
  \<open>keyOf\<close> joins the prefix with the JSON texts of the query and of the extra parameters; the
  key is kept as the triple of these three values.
\<close>

datatype extra = ExtraUnits units | ExtraUnitsDays units int | ExtraDate string

type_synonym cache_key = "string \<times> location_query \<times> extra"

definition keyOf :: "string \<Rightarrow> location_query \<Rightarrow> extra \<Rightarrow> cache_key" where
  "keyOf prefix q ex = (prefix, q, ex)"

text \<open>
  The module state: the three stores, and two logs that make the effects observable, the
  requests sent to the providers and the lines written by \<open>console.warn\<close>.
\<close>

record agg_state =
  currentCache :: "(cache_key, current_weather) lru"
  forecastCache :: "(cache_key, forecast) lru"
  historicalCache :: "(cache_key, historical_weather) lru"
  netCalls :: "request list"
  warnings :: "string list"

definition init_agg :: agg_state where
  "init_agg =
     \<lparr>currentCache = [], forecastCache = [], historicalCache = [], netCalls = [], warnings = []\<rparr>"

text \<open>
  What a call finds outside the module: the configuration, the providers, the clock, the
  rendering of numbers, and (for the alert service) what a POST to a webhook URL throws.
\<close>

record world =
  w_config :: config
  w_upstream :: upstream
  w_now :: int
  w_num_str :: "real \<Rightarrow> string"
  w_post :: "string \<Rightarrow> error option"

definition noProvider :: error where
  "noProvider = Error ''No weather provider available. Please set API keys in .env''"

definition noHistorical :: error where
  "noHistorical = Error ''Historical data not available with current configuration.''"

definition err_message :: "error \<Rightarrow> string" where
  "err_message e = (case e of Error m \<Rightarrow> m)"

definition sent :: "request list \<Rightarrow> agg_state \<Rightarrow> agg_state" where
  "sent reqs s = s\<lparr>netCalls := netCalls s @ reqs\<rparr>"

definition warn :: "string \<Rightarrow> agg_state \<Rightarrow> agg_state" where
  "warn line s = s\<lparr>warnings := warnings s @ [line]\<rparr>"

definition getCurrentWeather ::
  "world \<Rightarrow> location_query \<Rightarrow> units option \<Rightarrow> agg_state \<Rightarrow> (error + current_weather) \<times> agg_state" where
  "getCurrentWeather w q units_arg s =
     (let cfg = w_config w;
          u = (case units_arg of None \<Rightarrow> defaultUnits cfg | Some u' \<Rightarrow> u');
          key = keyOf ''current'' q (ExtraUnits u);
          (cached, cc) = lru_get (cacheTtlSeconds cfg * 1000) (w_now w) key (currentCache s);
          s0 = s\<lparr>currentCache := cc\<rparr>
      in case cached of
           Some d \<Rightarrow> (Inr d, s0)
         | None \<Rightarrow>
           (let (data1, s1) =
                  (if weatherApiKey cfg \<noteq> [] then
                     (case wa_getCurrent (w_upstream w) (w_now w) q of
                        (Inr d, reqs) \<Rightarrow> (Some d, sent reqs s0)
                      | (Inl e, reqs) \<Rightarrow>
                          (None,
                           warn (''WeatherAPI current failed, falling back to OpenWeather: ''
                                 @ err_message e) (sent reqs s0)))
                   else (None, s0));
                r2 =
                  (if data1 = None \<and> openWeatherApiKey cfg \<noteq> [] then
                     (case ow_getCurrent (w_num_str w) (w_upstream w) q u of
                        (Inr d, reqs) \<Rightarrow> Inr (Some d, sent reqs s1)
                      | (Inl e, reqs) \<Rightarrow> Inl (e, sent reqs s1))
                   else Inr (data1, s1))
            in case r2 of
                 Inl (e, s2) \<Rightarrow> (Inl e, s2)
               | Inr (None, s2) \<Rightarrow> (Inl noProvider, s2)
               | Inr (Some d, s2) \<Rightarrow>
                   (Inr d, s2\<lparr>currentCache := lru_set 500 (w_now w) key d (currentCache s2)\<rparr>)))"

definition getForecast ::
  "world \<Rightarrow> location_query \<Rightarrow> units option \<Rightarrow> int option \<Rightarrow> agg_state \<Rightarrow> (error + forecast) \<times> agg_state" where
  "getForecast w q units_arg days_arg s =
     (let cfg = w_config w;
          u = (case units_arg of None \<Rightarrow> defaultUnits cfg | Some u' \<Rightarrow> u');
          n = (case days_arg of None \<Rightarrow> 3 | Some n' \<Rightarrow> n');
          key = keyOf ''forecast'' q (ExtraUnitsDays u n);
          (cached, cc) = lru_get (forecastCacheTtlSeconds cfg * 1000) (w_now w) key (forecastCache s);
          s0 = s\<lparr>forecastCache := cc\<rparr>
      in case cached of
           Some d \<Rightarrow> (Inr d, s0)
         | None \<Rightarrow>
           (let (data1, s1) =
                  (if weatherApiKey cfg \<noteq> [] then
                     (case wa_getForecast (w_upstream w) q n of
                        (Inr d, reqs) \<Rightarrow> (Some d, sent reqs s0)
                      | (Inl e, reqs) \<Rightarrow>
                          (None,
                           warn (''WeatherAPI forecast failed, falling back to OpenWeather: ''
                                 @ err_message e) (sent reqs s0)))
                   else (None, s0));
                r2 =
                  (if data1 = None \<and> openWeatherApiKey cfg \<noteq> [] then
                     (case ow_getForecast (w_num_str w) (w_upstream w) q u n of
                        (Inr d, reqs) \<Rightarrow> Inr (Some d, sent reqs s1)
                      | (Inl e, reqs) \<Rightarrow> Inl (e, sent reqs s1))
                   else Inr (data1, s1))
            in case r2 of
                 Inl (e, s2) \<Rightarrow> (Inl e, s2)
               | Inr (None, s2) \<Rightarrow> (Inl noProvider, s2)
               | Inr (Some d, s2) \<Rightarrow>
                   (Inr d, s2\<lparr>forecastCache := lru_set 500 (w_now w) key d (forecastCache s2)\<rparr>)))"

definition getHistorical ::
  "world \<Rightarrow> location_query \<Rightarrow> string \<Rightarrow> agg_state \<Rightarrow> (error + historical_weather) \<times> agg_state" where
  "getHistorical w q dateISO s =
     (let cfg = w_config w;
          key = keyOf ''historical'' q (ExtraDate dateISO);
          (cached, cc) = lru_get (cacheTtlSeconds cfg * 1000) (w_now w) key (historicalCache s);
          s0 = s\<lparr>historicalCache := cc\<rparr>
      in case cached of
           Some d \<Rightarrow> (Inr d, s0)
         | None \<Rightarrow>
           (let (data1, s1) =
                  (if weatherApiKey cfg \<noteq> [] then
                     (case wa_getHistorical (w_upstream w) (w_now w) q dateISO of
                        (Inr d, reqs) \<Rightarrow> (Some d, sent reqs s0)
                      | (Inl e, reqs) \<Rightarrow>
                          (None, warn (''WeatherAPI historical failed: '' @ err_message e) (sent reqs s0)))
                   else (None, s0))
            in case data1 of
                 None \<Rightarrow> (Inl noHistorical, s1)
               | Some d \<Rightarrow>
                   (Inr d, s1\<lparr>historicalCache := lru_set 500 (w_now w) key d (historicalCache s1)\<rparr>)))"

section \<open>Alert service (alerts/alertService.ts)\<close>

datatype alert_condition_type = Rain | Temp_above | Temp_below | Wind_above

record weather_alert_condition =
  c_type :: alert_condition_type
  threshold :: "real option"
  daysAhead :: "int option"

datatype alert_channel = Console | Webhook

datatype sensitivity = Low | Medium | High

record weather_alert =
  alert_id :: string
  alert_name :: "string option"
  alert_location :: location_query
  alert_condition :: weather_alert_condition
  channel :: alert_channel
  webhookUrl :: "string option"
  sensitivity :: "sensitivity option"
  createdAt :: int
  lastTriggeredAt :: "int option"

text \<open>The argument of \<open>registerAlert\<close>: an alert without \<open>id\<close> and \<open>createdAt\<close>.\<close>

record alert_input =
  in_name :: "string option"
  in_location :: location_query
  in_condition :: weather_alert_condition
  in_channel :: alert_channel
  in_webhookUrl :: "string option"
  in_sensitivity :: "sensitivity option"
  in_lastTriggeredAt :: "int option"

text \<open>
  A notification keeps its message structured (kind, number, place) instead of the rendered
  text. \<open>dispatch\<close> is what leaves the process: a console line or a webhook POST.
\<close>

datatype payload = ForecastPayload forecast | CurrentPayload current_weather

datatype alert_message =
    RainExpected int location
  | TemperatureAbove real string
  | TemperatureBelow real string
  | WindAbove real string

datatype dispatch =
    ConsoleLog string alert_message payload
  | WebhookPost string string alert_message weather_alert payload

text \<open>
  The registry \<open>alerts\<close> is a \<open>Map\<close> from id to alert: a list in insertion order, in which
  \<open>set\<close> replaces the entry of a known id in place. The other effects of the sweep are the
  aggregator's state, the notifications dispatched and the warnings logged.
\<close>

record effects =
  agg :: agg_state
  dispatched :: "dispatch list"
  console_warn :: "string list"

record service =
  alerts :: "weather_alert list"
  fx :: effects

definition listAlerts :: "service \<Rightarrow> weather_alert list" where
  "listAlerts sv = alerts sv"

definition removeAlert :: "string \<Rightarrow> service \<Rightarrow> bool \<times> service" where
  "removeAlert i sv =
     (i \<in> set (map alert_id (alerts sv)),
      sv\<lparr>alerts := filter (\<lambda>a. alert_id a \<noteq> i) (alerts sv)\<rparr>)"

definition map_set :: "weather_alert \<Rightarrow> weather_alert list \<Rightarrow> weather_alert list" where
  "map_set a as =
     (if alert_id a \<in> set (map alert_id as)
      then map (\<lambda>b. if alert_id b = alert_id a then a else b) as
      else as @ [a])"

text \<open>\<open>generateId\<close> draws the id at random and the clock gives \<open>createdAt\<close>: both are arguments.\<close>

definition registerAlert :: "string \<Rightarrow> int \<Rightarrow> alert_input \<Rightarrow> service \<Rightarrow> weather_alert \<times> service" where
  "registerAlert new_id now inp sv =
     (let full =
            \<lparr>alert_id = new_id,
             alert_name = in_name inp,
             alert_location = in_location inp,
             alert_condition = in_condition inp,
             channel = in_channel inp,
             webhookUrl = in_webhookUrl inp,
             sensitivity = in_sensitivity inp,
             createdAt = now,
             lastTriggeredAt = in_lastTriggeredAt inp\<rparr>
      in (full, sv\<lparr>alerts := map_set full (alerts sv)\<rparr>))"

definition notify ::
  "world \<Rightarrow> weather_alert \<Rightarrow> alert_message \<Rightarrow> payload \<Rightarrow> effects \<Rightarrow> weather_alert \<times> effects" where
  "notify w alert message pl e =
     (let alert' = alert\<lparr>lastTriggeredAt := Some (w_now w)\<rparr> in
      if channel alert' = Console then
        (alert', e\<lparr>dispatched := dispatched e @ [ConsoleLog (alert_id alert') message pl]\<rparr>)
      else if channel alert' = Webhook \<and> truthy_str (webhookUrl alert') then
        (case webhookUrl alert' of
           Some url \<Rightarrow>
             (let e1 = e\<lparr>dispatched :=
                          dispatched e @ [WebhookPost url (alert_id alert') message alert' pl]\<rparr>
              in case w_post w url of
                   None \<Rightarrow> (alert', e1)
                 | Some err \<Rightarrow>
                     (alert',
                      e1\<lparr>console_warn :=
                           console_warn e1 @ [''Webhook notify failed: '' @ err_message err]\<rparr>))
         | None \<Rightarrow> (alert', e))
      else (alert', e))"

definition adjustThreshold :: "real \<Rightarrow> sensitivity option \<Rightarrow> real" where
  "adjustThreshold base sens =
     (if sens = None \<or> sens = Some Medium then base
      else if sens = Some High then js_mul base (to_double 0.9)
      else js_mul base (to_double 1.1))"

text \<open>
  \<open>evaluateAlert\<close> returns the error it throws, if any, the alert as \<open>notify\<close> left it, and the
  effects.
\<close>

definition evaluateAlert ::
  "world \<Rightarrow> weather_alert \<Rightarrow> effects \<Rightarrow> (error option \<times> weather_alert) \<times> effects" where
  "evaluateAlert w alert e =
     (let cond = alert_condition alert in
      if c_type cond = Rain then
        (let n = (case daysAhead cond of None \<Rightarrow> 1 | Some n' \<Rightarrow> n') in
         case getForecast w (alert_location alert) None (Some n) (agg e) of
           (Inl err, g) \<Rightarrow> ((Some err, alert), e\<lparr>agg := g\<rparr>)
         | (Inr fc, g) \<Rightarrow>
             (let raining =
                    list_ex
                      (\<lambda>d. (case chanceOfRainPct d of None \<Rightarrow> 0 | Some p \<Rightarrow> p)
                             \<ge> adjustThreshold 50 (sensitivity alert))
                      (days fc)
              in if raining then
                   (case notify w alert (RainExpected n (f_location fc)) (ForecastPayload fc)
                           (e\<lparr>agg := g\<rparr>) of
                      (alert', e') \<Rightarrow> ((None, alert'), e'))
                 else ((None, alert), e\<lparr>agg := g\<rparr>)))
      else
        (case getCurrentWeather w (alert_location alert) None (agg e) of
           (Inl err, g) \<Rightarrow> ((Some err, alert), e\<lparr>agg := g\<rparr>)
         | (Inr current, g) \<Rightarrow>
             (let e0 = e\<lparr>agg := g\<rparr> in
              if c_type cond = Temp_above \<and> threshold cond \<noteq> None then
                (let th = adjustThreshold (case threshold cond of Some t \<Rightarrow> t | None \<Rightarrow> 0)
                            (sensitivity alert)
                 in if temperatureC current \<ge> th then
                      (case notify w alert (TemperatureAbove th (loc_name (location current)))
                              (CurrentPayload current) e0 of
                         (alert', e') \<Rightarrow> ((None, alert'), e'))
                    else ((None, alert), e0))
              else if c_type cond = Temp_below \<and> threshold cond \<noteq> None then
                (let th = adjustThreshold (case threshold cond of Some t \<Rightarrow> t | None \<Rightarrow> 0)
                            (sensitivity alert)
                 in if temperatureC current \<le> th then
                      (case notify w alert (TemperatureBelow th (loc_name (location current)))
                              (CurrentPayload current) e0 of
                         (alert', e') \<Rightarrow> ((None, alert'), e'))
                    else ((None, alert), e0))
              else if c_type cond = Wind_above \<and> threshold cond \<noteq> None then
                (let th = adjustThreshold (case threshold cond of Some t \<Rightarrow> t | None \<Rightarrow> 0)
                            (sensitivity alert);
                     wind = (case windKph current of None \<Rightarrow> 0 | Some v \<Rightarrow> v)
                 in if wind \<ge> th then
                      (case notify w alert (WindAbove th (loc_name (location current)))
                              (CurrentPayload current) e0 of
                         (alert', e') \<Rightarrow> ((None, alert'), e'))
                    else ((None, alert), e0))
              else ((None, alert), e0))))"

text \<open>The loop of \<open>pollAlerts\<close> over the alerts listed, each evaluated under \<open>try\<close>.\<close>

fun poll_items :: "world \<Rightarrow> weather_alert list \<Rightarrow> effects \<Rightarrow> weather_alert list \<times> effects" where
  "poll_items w [] e = ([], e)"
| "poll_items w (a # as) e =
     (case evaluateAlert w a e of
        ((err, a'), e1) \<Rightarrow>
          (let e2 =
                 (case err of
                    None \<Rightarrow> e1
                  | Some x \<Rightarrow>
                      e1\<lparr>console_warn :=
                           console_warn e1
                           @ [''Alert evaluation failed: '' @ alert_id a @ '' '' @ err_message x]\<rparr>)
           in case poll_items w as e2 of (as', e3) \<Rightarrow> (a' # as', e3)))"

definition pollAlerts :: "world \<Rightarrow> service \<Rightarrow> service" where
  "pollAlerts w sv =
     (case poll_items w (listAlerts sv) (fx sv) of
        (as', e') \<Rightarrow> sv\<lparr>alerts := as', fx := e'\<rparr>)"

section \<open>Inputs used in the properties\<close>

text \<open>
  A query that resolves to no addressing mode, read off the two resolvers: the coordinates are
  not both present and the city is missing or empty.
\<close>

definition unresolvable :: "location_query \<Rightarrow> bool" where
  "unresolvable q = ((q_lat q = None \<or> q_lon q = None) \<and> \<not> truthy_str (q_city q))"

definition no_query :: location_query where
  "no_query = \<lparr>q_city = None, q_country = None, q_lat = None, q_lon = None\<rparr>"

text \<open>Providers that are down: every request fails at the network.\<close>

definition failing_upstream :: upstream where
  "failing_upstream =
     \<lparr>wa_current_api = (\<lambda>_. Inl (Error ''Network Error'')),
      wa_forecast_api = (\<lambda>_ _. Inl (Error ''Network Error'')),
      wa_history_api = (\<lambda>_ _. Inl (Error ''Network Error'')),
      ow_current_api = (\<lambda>_ _. Inl (Error ''Network Error'')),
      ow_forecast_api = (\<lambda>_ _. Inl (Error ''Network Error''))\<rparr>"

text \<open>
  The adjusted threshold in the words of the specification: the configured threshold
  multiplied by 0.9 for high sensitivity and by 1.1 for low, in the arithmetic of the program
  (the literals are doubles and the product is rounded to a double), and left unchanged for
  medium or no sensitivity.
\<close>

definition spec_threshold :: "real \<Rightarrow> sensitivity option \<Rightarrow> real" where
  "spec_threshold t sens =
     (case sens of
        Some High \<Rightarrow> js_mul t (to_double 0.9)
      | Some Low \<Rightarrow> js_mul t (to_double 1.1)
      | _ \<Rightarrow> t)"

text \<open>An evaluation that ends by calling \<open>notify\<close>.\<close>

definition notified ::
  "world \<Rightarrow> weather_alert \<Rightarrow> alert_message \<Rightarrow> payload \<Rightarrow> effects \<Rightarrow> (error option \<times> weather_alert) \<times> effects" where
  "notified w a m pl e = (case notify w a m pl e of (a', e') \<Rightarrow> ((None, a'), e'))"

text \<open>A deployment with WeatherAPI answering for Paris: 28 degrees, wind 12 kph, rain 45%.\<close>

definition paris :: location_query where
  "paris = \<lparr>q_city = Some ''Paris'', q_country = None, q_lat = None, q_lon = None\<rparr>"

definition paris_loc :: location where
  "paris_loc = \<lparr>loc_name = ''Paris'', loc_lat = 48.75, loc_lon = 2.25, loc_country = Some ''France''\<rparr>"

definition wa_28 :: wa_current_raw where
  "wa_28 =
     \<lparr>wc_location = paris_loc,
      wc_current =
        \<lparr>last_updated = Some 1000, temp_c = 28, temp_f = 82.5, feelslike_c = None,
         feelslike_f = None, wa_humidity = None, wind_kph = Some 12, wind_mph = None,
         wind_dir = None, pressure_mb = None, wa_uv = None, wa_condition = None\<rparr>\<rparr>"

definition cfg_keys :: "string \<Rightarrow> string \<Rightarrow> config" where
  "cfg_keys wa ow =
     \<lparr>openWeatherApiKey = ow, weatherApiKey = wa, defaultUnits = Metric,
      cacheTtlSeconds = 600, forecastCacheTtlSeconds = 10800\<rparr>"

definition world_of :: "config \<Rightarrow> upstream \<Rightarrow> int \<Rightarrow> world" where
  "world_of cfg up t =
     \<lparr>w_config = cfg, w_upstream = up, w_now = t, w_num_str = (\<lambda>_. ''0''), w_post = (\<lambda>_. None)\<rparr>"

definition no_effects :: effects where
  "no_effects = \<lparr>agg = init_agg, dispatched = [], console_warn = []\<rparr>"

definition temp_alert :: "alert_condition_type \<Rightarrow> real option \<Rightarrow> sensitivity option \<Rightarrow> weather_alert" where
  "temp_alert ty th sens =
     \<lparr>alert_id = ''a1'', alert_name = None, alert_location = paris,
      alert_condition = \<lparr>c_type = ty, threshold = th, daysAhead = None\<rparr>,
      channel = Console, webhookUrl = None, sensitivity = sens, createdAt = 0,
      lastTriggeredAt = None\<rparr>"

definition wa_fc_45 :: wa_forecast_raw where
  "wa_fc_45 =
     \<lparr>wf_location = paris_loc,
      wf_forecastday =
        Some [\<lparr>wfd_date = Some ''2024-01-01'', wfd_instant = 1704067200000,
               wfd_day = Some \<lparr>avgtemp_c = None, avgtemp_f = None, maxtemp_c = None,
                   maxtemp_f = None, mintemp_c = None, mintemp_f = None, avghumidity = None,
                   maxwind_kph = None, maxwind_mph = None, daily_chance_of_rain = Some 45,
                   daily_chance_of_snow = None, day_condition = None\<rparr>\<rparr>]\<rparr>"

definition up_wa :: upstream where
  "up_wa = failing_upstream\<lparr>wa_current_api := (\<lambda>_. Inr wa_28), wa_forecast_api := (\<lambda>_ _. Inr wa_fc_45)\<rparr>"

definition w_wa :: world where
  "w_wa = world_of (cfg_keys ''k1'' []) up_wa 5000"

text \<open>The alert a dispatched notification belongs to.\<close>

fun dispatch_id :: "dispatch \<Rightarrow> string" where
  "dispatch_id (ConsoleLog i _ _) = i"
| "dispatch_id (WebhookPost _ i _ _ _) = i"

text \<open>An alert that cannot compare anything: a threshold condition without a threshold.\<close>

definition quiet :: "weather_alert \<Rightarrow> bool" where
  "quiet a =
     (c_type (alert_condition a) \<in> {Temp_above, Temp_below, Wind_above}
      \<and> threshold (alert_condition a) = None)"

definition empty_service :: service where
  "empty_service = \<lparr>alerts = [], fx = no_effects\<rparr>"

definition empty_forecast :: forecast where
  "empty_forecast = \<lparr>f_provider = ''weatherapi'', f_location = paris_loc, days = []\<rparr>"

definition webhook_without_url :: alert_input where
  "webhook_without_url =
     \<lparr>in_name = None, in_location = paris,
      in_condition = \<lparr>c_type = Temp_above, threshold = Some 20, daysAhead = None\<rparr>,
      in_channel = Webhook, in_webhookUrl = None, in_sensitivity = None,
      in_lastTriggeredAt = None\<rparr>"

text \<open>A registry of two alerts: the first has no threshold, the second trips at 28 degrees.\<close>

definition two_alerts :: service where
  "two_alerts =
     \<lparr>alerts =
        [temp_alert Temp_above None (Some High),
         (temp_alert Temp_above (Some 20) None)\<lparr>alert_id := ''a2''\<rparr>],
      fx = no_effects\<rparr>"

text \<open>The units a call works with: the argument, or the configured default.\<close>

definition units_or_default :: "config \<Rightarrow> units option \<Rightarrow> units" where
  "units_or_default cfg ua = (case ua of None \<Rightarrow> defaultUnits cfg | Some u \<Rightarrow> u)"

text \<open>The store has no live entry for the call: the providers are consulted.\<close>

definition current_miss :: "world \<Rightarrow> location_query \<Rightarrow> units option \<Rightarrow> agg_state \<Rightarrow> bool" where
  "current_miss w q ua s =
     (fst (lru_get (cacheTtlSeconds (w_config w) * 1000) (w_now w)
             (keyOf ''current'' q (ExtraUnits (units_or_default (w_config w) ua)))
             (currentCache s)) = None)"

definition forecast_miss ::
  "world \<Rightarrow> location_query \<Rightarrow> units option \<Rightarrow> int option \<Rightarrow> agg_state \<Rightarrow> bool" where
  "forecast_miss w q ua da s =
     (fst (lru_get (forecastCacheTtlSeconds (w_config w) * 1000) (w_now w)
             (keyOf ''forecast'' q
                (ExtraUnitsDays (units_or_default (w_config w) ua)
                   (case da of None \<Rightarrow> 3 | Some n \<Rightarrow> n)))
             (forecastCache s)) = None)"

definition historical_miss :: "world \<Rightarrow> location_query \<Rightarrow> string \<Rightarrow> agg_state \<Rightarrow> bool" where
  "historical_miss w q dateISO s =
     (fst (lru_get (cacheTtlSeconds (w_config w) * 1000) (w_now w)
             (keyOf ''historical'' q (ExtraDate dateISO)) (historicalCache s)) = None)"

text \<open>
  The states of the module under a configuration: the stores start empty and change only
  through the three operations, called at any time with any providers behind them.
\<close>

inductive reachable :: "config \<Rightarrow> agg_state \<Rightarrow> bool" for cfg :: config where
  r_init: "reachable cfg init_agg"
| r_current: "reachable cfg s \<Longrightarrow> w_config w = cfg
              \<Longrightarrow> reachable cfg (snd (getCurrentWeather w q ua s))"
| r_forecast: "reachable cfg s \<Longrightarrow> w_config w = cfg
              \<Longrightarrow> reachable cfg (snd (getForecast w q ua da s))"
| r_historical: "reachable cfg s \<Longrightarrow> w_config w = cfg
              \<Longrightarrow> reachable cfg (snd (getHistorical w q dateISO s))"

text \<open>A request to the history endpoint of WeatherAPI.\<close>

definition is_wa_history :: "request \<Rightarrow> bool" where
  "is_wa_history r = (case r of WA_History _ _ \<Rightarrow> True | _ \<Rightarrow> False)"

text \<open>Both keys configured and every provider down; only WeatherAPI configured and down.\<close>

definition w_both_down :: world where
  "w_both_down = world_of (cfg_keys ''k1'' ''k2'') failing_upstream 5000"

definition w_wa_down :: world where
  "w_wa_down = world_of (cfg_keys ''k1'' []) failing_upstream 5000"

definition w_no_keys :: world where
  "w_no_keys = world_of (cfg_keys [] []) failing_upstream 5000"

text \<open>
  The unit converter of the specification, in the arithmetic of the program: the literals
  \<open>9 / 5\<close>, \<open>5 / 9\<close>, \<open>3.6\<close> and \<open>1.60934\<close> are doubles and so is every intermediate result.
  OpenWeather gives a metric wind speed in metres per second.
\<close>

definition celsiusToFahrenheit :: "real \<Rightarrow> real" where
  "celsiusToFahrenheit c = js_add (js_mul c (js_div 9 5)) 32"

definition fahrenheitToCelsius :: "real \<Rightarrow> real" where
  "fahrenheitToCelsius f = js_mul (js_sub f 32) (js_div 5 9)"

definition msToKph :: "real \<Rightarrow> real" where
  "msToKph v = js_mul v (to_double 3.6)"

definition kphToMph :: "real \<Rightarrow> real" where
  "kphToMph k = js_div k (to_double 1.60934)"

definition mphToKph :: "real \<Rightarrow> real" where
  "mphToKph m = js_mul m (to_double 1.60934)"

text \<open>
  A record is the normalized form of an OpenWeather answer \<open>raw\<close> asked in units \<open>u\<close>: it is
  tagged with the provider, carries the place, the instant and the fields the provider has,
  has no UV index, and gives temperature, felt temperature and wind in both unit systems, the
  native one as received and the other one converted.
\<close>

definition ow_normalized :: "(real \<Rightarrow> string) \<Rightarrow> units \<Rightarrow> ow_current_raw \<Rightarrow> current_weather \<Rightarrow> bool" where
  "ow_normalized ns u raw d =
     (provider d = ''openweather''
      \<and> loc_name (location d) =
          (if truthy_str (oc_name raw) then (case oc_name raw of Some n \<Rightarrow> n | None \<Rightarrow> [])
           else ns (oc_lat raw) @ '','' @ ns (oc_lon raw))
      \<and> loc_lat (location d) = oc_lat raw
      \<and> loc_lon (location d) = oc_lon raw
      \<and> loc_country (location d) = oc_country raw
      \<and> observedAt d = oc_dt raw * 1000
      \<and> (u = Metric \<longrightarrow>
            temperatureC d = oc_temp raw
            \<and> temperatureF d = celsiusToFahrenheit (oc_temp raw)
            \<and> feelsLikeC d = Some (oc_feels_like raw)
            \<and> feelsLikeF d = Some (celsiusToFahrenheit (oc_feels_like raw))
            \<and> windKph d = Some (msToKph (oc_wind_speed raw))
            \<and> windMph d = Some (kphToMph (msToKph (oc_wind_speed raw))))
      \<and> (u = Imperial \<longrightarrow>
            temperatureF d = oc_temp raw
            \<and> temperatureC d = fahrenheitToCelsius (oc_temp raw)
            \<and> feelsLikeF d = Some (oc_feels_like raw)
            \<and> feelsLikeC d = Some (fahrenheitToCelsius (oc_feels_like raw))
            \<and> windMph d = Some (oc_wind_speed raw)
            \<and> windKph d = Some (mphToKph (oc_wind_speed raw)))
      \<and> humidity d = oc_humidity raw
      \<and> pressureMb d = oc_pressure raw
      \<and> uv d = None
      \<and> windDir d = map_option (\<lambda>g. ns g @ [CHR 0xB0]) (oc_wind_deg raw)
      \<and> cond_text (condition d) =
          (case oc_weather0 raw of
             Some w \<Rightarrow> (if truthy_str (description w) then description w else Some ''Unknown'')
           | None \<Rightarrow> Some ''Unknown'')
      \<and> cond_iconUrl (condition d) =
          (case oc_weather0 raw of
             Some w \<Rightarrow>
               (if truthy_str (ow_icon w)
                then Some (''https://openweathermap.org/img/wn/''
                           @ (case ow_icon w of Some i \<Rightarrow> i | None \<Rightarrow> []) @ ''@2x.png'')
                else None)
           | None \<Rightarrow> None)
      \<and> cond_code (condition d) = (case oc_weather0 raw of Some w \<Rightarrow> ow_id w | None \<Rightarrow> None))"

text \<open>WeatherAPI down and OpenWeather answering: 20 degrees in Paris.\<close>

definition ow_20 :: ow_current_raw where
  "ow_20 =
     \<lparr>oc_name = Some ''Paris'', oc_lat = 48.75, oc_lon = 2.25, oc_country = Some ''FR'',
      oc_dt = 1704067200, oc_temp = 20, oc_feels_like = 19, oc_humidity = Some 60,
      oc_wind_speed = 5, oc_wind_deg = None, oc_pressure = Some 1013, oc_weather0 = None\<rparr>"

definition up_ow :: upstream where
  "up_ow = failing_upstream\<lparr>ow_current_api := (\<lambda>_ _. Inr ow_20)\<rparr>"

definition w_fallback :: world where
  "w_fallback = world_of (cfg_keys ''k1'' ''k2'') up_ow 5000"

text \<open>Only OpenWeather configured.\<close>

definition w_ow_only :: world where
  "w_ow_only = world_of (cfg_keys [] ''k2'') up_ow 5000"

text \<open>The date key of a slot, and the slots of a list that fall on a date.\<close>

definition slot_date :: "ow_slot \<Rightarrow> string" where
  "slot_date item = toISODate (dt item * 1000)"

definition same_day :: "string \<Rightarrow> ow_slot list \<Rightarrow> ow_slot list" where
  "same_day k items = filter (\<lambda>item. slot_date item = k) items"

text \<open>
  The UTC day of a slot (the number of whole days from the epoch to its time), the slots of
  a list that fall on a day, and the times whose UTC year has four digits: from
  0000-01-01T00:00:00Z up to, and without, 10000-01-01T00:00:00Z, in seconds.
\<close>

definition utc_day :: "ow_slot \<Rightarrow> int" where
  "utc_day item = dt item div 86400"

definition on_day :: "int \<Rightarrow> ow_slot list \<Rightarrow> ow_slot list" where
  "on_day k items = filter (\<lambda>item. utc_day item = k) items"

definition four_digit_year :: "int \<Rightarrow> bool" where
  "four_digit_year t = (- 62167219200 \<le> t \<and> t < 253402300800)"

text \<open>
  What the loop of \<open>getForecast\<close> maintains: after the slots \<open>pre\<close>, the dictionary has one
  bucket per date seen, holding the temperatures and counts of the slots of that date.
\<close>

definition bucketed :: "units \<Rightarrow> ow_slot list \<Rightarrow> byDate \<Rightarrow> bool" where
  "bucketed u pre bd =
     (distinct (map fst bd)
      \<and> set (map fst bd) = set (map slot_date pre)
      \<and> (\<forall>(k, b) \<in> set bd.
            tempsC b = map (slot_tempC u) (same_day k pre)
            \<and> tempsF b = map (slot_tempF u) (same_day k pre)
            \<and> totalSlots b = length (same_day k pre)
            \<and> rainSlots b = length (filter slot_rain (same_day k pre))
            \<and> snowSlots b = length (filter slot_snow (same_day k pre))))"

text \<open>
  The daily figures in the words of the specification, for the samples \<open>S\<close> of one day: the
  averages are the arithmetic means of the sample temperatures, maximum and minimum are
  their extrema, and the chances of rain and snow are the percentages of the slots that
  carry rain or snow, rounded to the nearest integer. The numbers are doubles: the mean is
  the sum of the samples, added one by one in their order starting from 0, divided by
  their number, every operation rounded; the percentage is the quotient of the two counts
  times 100, every operation rounded, and then rounded to an integer, a half going upwards.
\<close>

definition spec_mean :: "real list \<Rightarrow> real" where
  "spec_mean xs = js_div (foldl js_add 0 xs) (real (length xs))"

definition spec_pct :: "nat \<Rightarrow> nat \<Rightarrow> real" where
  "spec_pct k n = of_int (round (js_mul (js_div (real k) (real n)) 100))"

definition summarises :: "units \<Rightarrow> ow_slot list \<Rightarrow> forecast_day \<Rightarrow> bool" where
  "summarises u S day =
     (avgTempC day = Some (spec_mean (map (slot_tempC u) S))
      \<and> avgTempF day = Some (spec_mean (map (slot_tempF u) S))
      \<and> maxTempC day = Some (Max (set (map (slot_tempC u) S)))
      \<and> minTempC day = Some (Min (set (map (slot_tempC u) S)))
      \<and> maxTempF day = Some (Max (set (map (slot_tempF u) S)))
      \<and> minTempF day = Some (Min (set (map (slot_tempF u) S)))
      \<and> chanceOfRainPct day = Some (spec_pct (length (filter slot_rain S)) (length S))
      \<and> chanceOfSnowPct day = Some (spec_pct (length (filter slot_snow S)) (length S)))"

text \<open>
  Six slots over two days, out of order: four on 2024-01-01, two of them with rain, and two
  dry ones on 2024-01-02.
\<close>

definition slot_at :: "int \<Rightarrow> real \<Rightarrow> real option \<Rightarrow> ow_slot" where
  "slot_at t temp rain =
     \<lparr>dt = t, main_temp = temp, rain_3h = rain, snow_3h = None, weather0 = None\<rparr>"

definition example_slots :: "ow_slot list" where
  "example_slots =
     [slot_at 1704153600 8 None,
      slot_at 1704067200 10 (Some 1.5),
      slot_at 1704078000 12 None,
      slot_at 1704164400 6 None,
      slot_at 1704088800 14 (Some 0.5),
      slot_at 1704099600 12 None]"

definition up_forecast :: upstream where
  "up_forecast =
     failing_upstream
       \<lparr>ow_forecast_api :=
          (\<lambda>_ _. Inr \<lparr>of_name = Some ''Paris'', of_lat = 48.75, of_lon = 2.25,
                       of_country = Some ''FR'', of_list = example_slots\<rparr>)\<rparr>"

text \<open>
  Three slots: one on 2024-01-01, and two in the year 10000, on the first and on the sixth
  of January.
\<close>

definition far_slots :: "ow_slot list" where
  "far_slots =
     [slot_at 1704067200 10 None,
      slot_at 253402300800 20 None,
      slot_at 253402732800 30 None]"

definition up_far :: upstream where
  "up_far =
     failing_upstream
       \<lparr>ow_forecast_api :=
          (\<lambda>_ _. Inr \<lparr>of_name = Some ''Paris'', of_lat = 48.75, of_lon = 2.25,
                       of_country = Some ''FR'', of_list = far_slots\<rparr>)\<rparr>"

definition plain_num :: "real \<Rightarrow> string" where
  "plain_num x = ''0''"

section \<open>Verified properties\<close>


subsection \<open>Queries without an addressing mode\<close>

lemma resolveQuery_unresolvable:
  "unresolvable q \<Longrightarrow> resolveQuery q = Inl (Error ''WeatherAPI: provide city or lat/lon'')"
  by (cases "q_lat q"; cases "q_lon q"; cases "q_city q")
     (auto simp: unresolvable_def resolveQuery_def)

lemma resolveQueryParams_unresolvable:
  "unresolvable q \<Longrightarrow> resolveQueryParams q = Inl (Error ''OpenWeather: provide city or lat/lon'')"
  by (cases "q_lat q"; cases "q_lon q"; cases "q_city q")
     (auto simp: unresolvable_def resolveQueryParams_def)

text \<open>
  C7, as the code has it. For a query that resolves neither to coordinates nor to a city, the
  three WeatherAPI operations and the two fetching OpenWeather operations throw their
  "provide city or lat/lon" error and issue no request. The OpenWeather historical function
  takes no query: it returns null, without failing and without a request.
\<close>

theorem invalid_query_rejected:
  assumes "unresolvable q"
  shows "wa_getCurrent up now q = (Inl (Error ''WeatherAPI: provide city or lat/lon''), [])
       \<and> wa_getForecast up q n = (Inl (Error ''WeatherAPI: provide city or lat/lon''), [])
       \<and> wa_getHistorical up now q dateISO = (Inl (Error ''WeatherAPI: provide city or lat/lon''), [])
       \<and> ow_getCurrent ns up q u = (Inl (Error ''OpenWeather: provide city or lat/lon''), [])
       \<and> ow_getForecast ns up q u n = (Inl (Error ''OpenWeather: provide city or lat/lon''), [])
       \<and> ow_getHistorical = (Inr None, [])"
  using resolveQuery_unresolvable [OF assms] resolveQueryParams_unresolvable [OF assms]
  by (simp add: wa_getCurrent_def wa_getForecast_def wa_getHistorical_def ow_getCurrent_def
        ow_getForecast_def ow_getHistorical_def)

theorem invalid_query_rejected_witness:
  "unresolvable no_query
   \<and> wa_getCurrent failing_upstream 0 no_query
       = (Inl (Error ''WeatherAPI: provide city or lat/lon''), [])
   \<and> ow_getForecast (\<lambda>_. []) failing_upstream no_query Metric 3
       = (Inl (Error ''OpenWeather: provide city or lat/lon''), [])"
proof -
  have u: "unresolvable no_query" by (simp add: unresolvable_def no_query_def)
  from invalid_query_rejected [OF u, of failing_upstream 0 3 "[]" "\<lambda>_. []" Metric] u
  show ?thesis by simp
qed

text \<open>
  C7 as stated fails for the sixth operation: on the empty query the OpenWeather historical
  function does not fail, it returns null.
\<close>

theorem ow_getHistorical_counterexample:
  "unresolvable \<lparr>q_city = None, q_country = None, q_lat = None, q_lon = None\<rparr>
   \<and> fst ow_getHistorical = Inr None"
  by (simp add: unresolvable_def ow_getHistorical_def)

subsection \<open>Sensitivity and thresholds\<close>

lemma adjustThreshold_factor: "adjustThreshold b sens = spec_threshold b sens"
proof (cases sens)
  case None
  then show ?thesis by (simp add: adjustThreshold_def spec_threshold_def)
next
  case (Some s)
  then show ?thesis by (cases s) (simp_all add: adjustThreshold_def spec_threshold_def)
qed

lemma evaluate_temp_above:
  assumes "c_type (alert_condition a) = Temp_above" "threshold (alert_condition a) = Some t"
      "getCurrentWeather w (alert_location a) None (agg e) = (Inr cur, g)"
  shows "evaluateAlert w a e =
         (if spec_threshold t (sensitivity a) \<le> temperatureC cur
          then notified w a (TemperatureAbove (spec_threshold t (sensitivity a)) (loc_name (location cur)))
                 (CurrentPayload cur) (e\<lparr>agg := g\<rparr>)
          else ((None, a), e\<lparr>agg := g\<rparr>))"
  using assms by (simp add: evaluateAlert_def notified_def adjustThreshold_factor Let_def)

lemma evaluate_temp_below:
  assumes "c_type (alert_condition a) = Temp_below" "threshold (alert_condition a) = Some t"
      "getCurrentWeather w (alert_location a) None (agg e) = (Inr cur, g)"
  shows "evaluateAlert w a e =
         (if temperatureC cur \<le> spec_threshold t (sensitivity a)
          then notified w a (TemperatureBelow (spec_threshold t (sensitivity a)) (loc_name (location cur)))
                 (CurrentPayload cur) (e\<lparr>agg := g\<rparr>)
          else ((None, a), e\<lparr>agg := g\<rparr>))"
  using assms by (simp add: evaluateAlert_def notified_def adjustThreshold_factor Let_def)

lemma evaluate_wind_above:
  assumes "c_type (alert_condition a) = Wind_above" "threshold (alert_condition a) = Some t"
      "getCurrentWeather w (alert_location a) None (agg e) = (Inr cur, g)"
  shows "evaluateAlert w a e =
         (if spec_threshold t (sensitivity a) \<le> (case windKph cur of None \<Rightarrow> 0 | Some v \<Rightarrow> v)
          then notified w a (WindAbove (spec_threshold t (sensitivity a)) (loc_name (location cur)))
                 (CurrentPayload cur) (e\<lparr>agg := g\<rparr>)
          else ((None, a), e\<lparr>agg := g\<rparr>))"
  using assms by (simp add: evaluateAlert_def notified_def adjustThreshold_factor Let_def)

lemma evaluate_rain:
  assumes "c_type (alert_condition a) = Rain"
      "getForecast w (alert_location a) None
         (Some (case daysAhead (alert_condition a) of None \<Rightarrow> 1 | Some n \<Rightarrow> n)) (agg e) = (Inr fc, g)"
  shows "evaluateAlert w a e =
         (if list_ex (\<lambda>d. spec_threshold 50 (sensitivity a)
                           \<le> (case chanceOfRainPct d of None \<Rightarrow> 0 | Some p \<Rightarrow> p)) (days fc)
          then notified w a
                 (RainExpected (case daysAhead (alert_condition a) of None \<Rightarrow> 1 | Some n \<Rightarrow> n)
                    (f_location fc))
                 (ForecastPayload fc) (e\<lparr>agg := g\<rparr>)
          else ((None, a), e\<lparr>agg := g\<rparr>))"
  using assms by (simp add: evaluateAlert_def notified_def adjustThreshold_factor Let_def)








subsection \<open>Registration\<close>

lemma map_set_mem: "a \<in> set (map_set a as)"
  by (auto simp: map_set_def)

text \<open>
  C8, as the code has it. \<open>registerAlert\<close> stores the definition as given, under the new id and
  creation time: channel and webhookUrl of the stored alert are those of the definition,
  nothing relates them. When a webhook alert without a (non-empty) URL trips, \<open>notify\<close> only
  stamps it and dispatches nothing; a console alert is logged whatever its webhookUrl.
\<close>

theorem registerAlert_stores_as_given:
  "fst (registerAlert i now inp sv) \<in> set (alerts (snd (registerAlert i now inp sv)))
   \<and> channel (fst (registerAlert i now inp sv)) = in_channel inp
   \<and> webhookUrl (fst (registerAlert i now inp sv)) = in_webhookUrl inp
   \<and> (channel a = Webhook \<and> \<not> truthy_str (webhookUrl a)
        \<longrightarrow> notify w a m pl e = (a\<lparr>lastTriggeredAt := Some (w_now w)\<rparr>, e))
   \<and> (channel a = Console
        \<longrightarrow> notify w a m pl e
            = (a\<lparr>lastTriggeredAt := Some (w_now w)\<rparr>,
               e\<lparr>dispatched := dispatched e @ [ConsoleLog (alert_id a) m pl]\<rparr>))"
  by (simp add: registerAlert_def Let_def map_set_mem notify_def)

theorem registerAlert_stores_as_given_witness:
  "channel (fst (registerAlert ''a1'' 0 webhook_without_url empty_service)) = Webhook
   \<and> \<not> truthy_str (webhookUrl (fst (registerAlert ''a1'' 0 webhook_without_url empty_service)))
   \<and> fst (registerAlert ''a1'' 0 webhook_without_url empty_service)
       \<in> set (alerts (snd (registerAlert ''a1'' 0 webhook_without_url empty_service)))
   \<and> dispatched (snd (notify w_wa (fst (registerAlert ''a1'' 0 webhook_without_url empty_service))
                        (TemperatureAbove 20 ''Paris'') (ForecastPayload empty_forecast) no_effects)) = []"
  using registerAlert_stores_as_given
          [of "''a1''" 0 webhook_without_url empty_service
              "fst (registerAlert ''a1'' 0 webhook_without_url empty_service)" w_wa
              "TemperatureAbove 20 ''Paris''" "ForecastPayload empty_forecast" no_effects]
  by (simp add: webhook_without_url_def no_effects_def)

text \<open>
  C8 as stated fails: a webhook alert registered without a webhookUrl is stored as it is.
\<close>

theorem registerAlert_counterexample:
  "channel (fst (registerAlert ''a1'' 0 webhook_without_url empty_service)) = Webhook
   \<and> webhookUrl (fst (registerAlert ''a1'' 0 webhook_without_url empty_service)) = None
   \<and> alerts (snd (registerAlert ''a1'' 0 webhook_without_url empty_service))
       = [fst (registerAlert ''a1'' 0 webhook_without_url empty_service)]"
  by (simp add: registerAlert_def Let_def map_set_def webhook_without_url_def empty_service_def)

subsection \<open>Alerts without a threshold\<close>

lemma notify_id: "alert_id (fst (notify w a m pl e)) = alert_id a"
  by (simp add: notify_def Let_def split: option.splits)

lemma notify_dispatched:
  "\<exists>new. dispatched (snd (notify w a m pl e)) = dispatched e @ new
         \<and> (\<forall>d \<in> set new. dispatch_id d = alert_id a)"
  by (auto simp: notify_def Let_def split: option.splits)

lemma evaluateAlert_cases:
  "(\<exists>err g. evaluateAlert w a e = ((err, a), e\<lparr>agg := g\<rparr>))
   \<or> (\<not> quiet a \<and> (\<exists>m pl g. evaluateAlert w a e = notified w a m pl (e\<lparr>agg := g\<rparr>)))"
proof (cases "c_type (alert_condition a) = Rain")
  case True
  let ?n = "case daysAhead (alert_condition a) of None \<Rightarrow> 1 | Some n \<Rightarrow> n"
  obtain r g where fg: "getForecast w (alert_location a) None (Some ?n) (agg e) = (r, g)"
    by (cases "getForecast w (alert_location a) None (Some ?n) (agg e)")
  have nq: "\<not> quiet a" using True by (simp add: quiet_def)
  show ?thesis
  proof (cases r)
    case (Inl err)
    then have "evaluateAlert w a e = ((Some err, a), e\<lparr>agg := g\<rparr>)"
      using True fg by (simp add: evaluateAlert_def)
    then show ?thesis by blast
  next
    case (Inr fc)
    from evaluate_rain [OF True fg [unfolded Inr]] nq show ?thesis
      by (metis (no_types, lifting))
  qed
next
  case False
  obtain r g where cg: "getCurrentWeather w (alert_location a) None (agg e) = (r, g)"
    by (cases "getCurrentWeather w (alert_location a) None (agg e)")
  show ?thesis
  proof (cases r)
    case (Inl err)
    then have "evaluateAlert w a e = ((Some err, a), e\<lparr>agg := g\<rparr>)"
      using False cg by (simp add: evaluateAlert_def)
    then show ?thesis by blast
  next
    case (Inr cur)
    note cur = cg [unfolded Inr]
    show ?thesis
    proof (cases "threshold (alert_condition a)")
      case None
      then have "evaluateAlert w a e = ((None, a), e\<lparr>agg := g\<rparr>)"
        using False cur by (simp add: evaluateAlert_def)
      then show ?thesis by blast
    next
      case (Some t)
      then have nq: "\<not> quiet a" by (simp add: quiet_def)
      from False consider "c_type (alert_condition a) = Temp_above"
        | "c_type (alert_condition a) = Temp_below" | "c_type (alert_condition a) = Wind_above"
        by (cases "c_type (alert_condition a)") auto
      then show ?thesis
      proof cases
        case 1
        from evaluate_temp_above [OF 1 Some cur] nq show ?thesis by (metis (no_types, lifting))
      next
        case 2
        from evaluate_temp_below [OF 2 Some cur] nq show ?thesis by (metis (no_types, lifting))
      next
        case 3
        from evaluate_wind_above [OF 3 Some cur] nq show ?thesis by (metis (no_types, lifting))
      qed
    qed
  qed
qed

lemma notified_eq: "notified w a m pl e = ((None, fst (notify w a m pl e)), snd (notify w a m pl e))"
  by (simp add: notified_def split_def)

lemma notified_id: "alert_id (snd (fst (notified w a m pl e))) = alert_id a"
  by (simp add: notified_eq notify_id)

lemma notified_dispatched:
  "\<exists>new. dispatched (snd (notified w a m pl e)) = dispatched e @ new
         \<and> (\<forall>d \<in> set new. dispatch_id d = alert_id a)"
  using notify_dispatched [of w a m pl e] by (simp add: notified_eq)

lemma evaluateAlert_quiet:
  assumes "quiet a"
  shows "snd (fst (evaluateAlert w a e)) = a \<and> dispatched (snd (evaluateAlert w a e)) = dispatched e"
  using assms evaluateAlert_cases [of w a e] by auto

lemma evaluateAlert_id: "alert_id (snd (fst (evaluateAlert w a e))) = alert_id a"
  using evaluateAlert_cases [of w a e] notified_id by auto

lemma evaluateAlert_dispatched:
  "\<exists>new. dispatched (snd (evaluateAlert w a e)) = dispatched e @ new
         \<and> (\<forall>d \<in> set new. dispatch_id d = alert_id a \<and> \<not> quiet a)"
  using evaluateAlert_cases [of w a e]
proof (elim disjE exE conjE)
  fix err g
  assume "evaluateAlert w a e = ((err, a), e\<lparr>agg := g\<rparr>)"
  then show ?thesis by simp
next
  fix m pl g
  assume nq: "\<not> quiet a" and ev: "evaluateAlert w a e = notified w a m pl (e\<lparr>agg := g\<rparr>)"
  from notified_dispatched [of w a m pl "e\<lparr>agg := g\<rparr>"] nq ev show ?thesis by simp
qed

text \<open>The loop keeps the alerts in place and only adds notifications of alerts that compare.\<close>

lemma poll_items_props:
  "length (fst (poll_items w as e)) = length as
   \<and> (\<forall>i < length as. quiet (as ! i) \<longrightarrow> fst (poll_items w as e) ! i = as ! i)
   \<and> (\<exists>new. dispatched (snd (poll_items w as e)) = dispatched e @ new
         \<and> (\<forall>d \<in> set new. \<exists>b \<in> set as. dispatch_id d = alert_id b \<and> \<not> quiet b))"
proof (induction as arbitrary: e)
  case Nil
  then show ?case by simp
next
  case (Cons a as)
  obtain err a' e1 where ev: "evaluateAlert w a e = ((err, a'), e1)"
    by (metis prod.exhaust)
  define e2 where "e2 =
    (case err of None \<Rightarrow> e1
     | Some x \<Rightarrow> e1\<lparr>console_warn := console_warn e1
           @ [''Alert evaluation failed: '' @ alert_id a @ '' '' @ err_message x]\<rparr>)"
  have d2: "dispatched e2 = dispatched e1" by (simp add: e2_def split: option.splits)
  have step: "poll_items w (a # as) e
              = (a' # fst (poll_items w as e2), snd (poll_items w as e2))"
    by (simp add: ev e2_def split: prod.splits)
  from evaluateAlert_dispatched [of w a e] ev obtain n1 where
    n1: "dispatched e1 = dispatched e @ n1" "\<forall>d \<in> set n1. dispatch_id d = alert_id a \<and> \<not> quiet a"
    by auto
  from Cons.IH [of e2] obtain n2 where
    len: "length (fst (poll_items w as e2)) = length as" and
    keep: "\<forall>i < length as. quiet (as ! i) \<longrightarrow> fst (poll_items w as e2) ! i = as ! i" and
    n2: "dispatched (snd (poll_items w as e2)) = dispatched e2 @ n2"
        "\<forall>d \<in> set n2. \<exists>b \<in> set as. dispatch_id d = alert_id b \<and> \<not> quiet b"
    by blast
  have q: "quiet a \<Longrightarrow> a' = a" using evaluateAlert_quiet [of a w e] ev by simp
  have A: "length (fst (poll_items w (a # as) e)) = length (a # as)"
    by (simp add: step len del: poll_items.simps)
  have B: "\<forall>i < length (a # as). quiet ((a # as) ! i)
             \<longrightarrow> fst (poll_items w (a # as) e) ! i = (a # as) ! i"
  proof (intro allI impI)
    fix i assume "i < length (a # as)" "quiet ((a # as) ! i)"
    then show "fst (poll_items w (a # as) e) ! i = (a # as) ! i"
      using q keep by (cases i) (simp_all add: step del: poll_items.simps)
  qed
  have C: "dispatched (snd (poll_items w (a # as) e)) = dispatched e @ (n1 @ n2)"
    by (simp add: step n2(1) d2 n1(1) del: poll_items.simps)
  have D: "\<forall>d \<in> set (n1 @ n2). \<exists>b \<in> set (a # as). dispatch_id d = alert_id b \<and> \<not> quiet b"
    using n1(2) n2(2) by auto
  from A B C D show ?case by blast
qed

text \<open>
  C10. An alert of type \<open>temp_above\<close>, \<open>temp_below\<close> or \<open>wind_above\<close> without threshold is
  returned unchanged by every evaluation, which dispatches nothing, whatever the providers
  answer; a sweep leaves it unchanged in the registry, and (ids being distinct, as the registry
  keeps them) none of the notifications the sweep dispatches is for it.
\<close>

theorem no_threshold_never_fires:
  assumes "i < length (alerts sv)"
      and "c_type (alert_condition (alerts sv ! i)) \<in> {Temp_above, Temp_below, Wind_above}"
      and "threshold (alert_condition (alerts sv ! i)) = None"
      and "distinct (map alert_id (alerts sv))"
  shows "snd (fst (evaluateAlert w (alerts sv ! i) e)) = alerts sv ! i
       \<and> dispatched (snd (evaluateAlert w (alerts sv ! i) e)) = dispatched e
       \<and> length (alerts (pollAlerts w sv)) = length (alerts sv)
       \<and> alerts (pollAlerts w sv) ! i = alerts sv ! i
       \<and> lastTriggeredAt (alerts (pollAlerts w sv) ! i) = lastTriggeredAt (alerts sv ! i)
       \<and> (\<exists>new. dispatched (fx (pollAlerts w sv)) = dispatched (fx sv) @ new
            \<and> (\<forall>d \<in> set new. dispatch_id d \<noteq> alert_id (alerts sv ! i)))"
proof -
  let ?a = "alerts sv ! i"
  have q: "quiet ?a" using assms(2,3) by (simp add: quiet_def)
  have poll: "alerts (pollAlerts w sv) = fst (poll_items w (alerts sv) (fx sv))"
             "fx (pollAlerts w sv) = snd (poll_items w (alerts sv) (fx sv))"
    by (simp_all add: pollAlerts_def listAlerts_def split: prod.splits)
  from poll_items_props [of w "alerts sv" "fx sv"] obtain new where
    len: "length (fst (poll_items w (alerts sv) (fx sv))) = length (alerts sv)" and
    keep: "\<forall>j < length (alerts sv). quiet (alerts sv ! j)
             \<longrightarrow> fst (poll_items w (alerts sv) (fx sv)) ! j = alerts sv ! j" and
    new: "dispatched (snd (poll_items w (alerts sv) (fx sv))) = dispatched (fx sv) @ new"
         "\<forall>d \<in> set new. \<exists>b \<in> set (alerts sv). dispatch_id d = alert_id b \<and> \<not> quiet b"
    by blast
  have other: "\<forall>d \<in> set new. dispatch_id d \<noteq> alert_id ?a"
  proof
    fix d assume "d \<in> set new"
    with new(2) obtain b where b: "b \<in> set (alerts sv)" "dispatch_id d = alert_id b" "\<not> quiet b"
      by blast
    from b(1) obtain j where j: "j < length (alerts sv)" "alerts sv ! j = b"
      by (auto simp: in_set_conv_nth)
    have "j \<noteq> i" using q b(3) j(2) by auto
    then have "alert_id b \<noteq> alert_id ?a"
      using assms(1,4) j by (auto simp: distinct_conv_nth)
    then show "dispatch_id d \<noteq> alert_id ?a" using b(2) by simp
  qed
  have same: "alerts (pollAlerts w sv) ! i = ?a" using keep assms(1) q poll(1) by simp
  show ?thesis
    using evaluateAlert_quiet [OF q, of w e] len same new(1) other poll by auto
qed

lemma two_alerts_poll:
  "map dispatch_id (dispatched (fx (pollAlerts w_wa two_alerts))) = [''a2'']"
  by (simp add: pollAlerts_def listAlerts_def two_alerts_def temp_alert_def no_effects_def
        evaluateAlert_def notify_def adjustThreshold_def
        getCurrentWeather_def w_wa_def world_of_def cfg_keys_def init_agg_def lru_get_def
        lru_set_def keyOf_def wa_getCurrent_def resolveQuery_def paris_def up_wa_def
        failing_upstream_def wa_28_def Let_def sent_def)

theorem no_threshold_never_fires_witness:
  "alerts two_alerts ! 0 = temp_alert Temp_above None (Some High)
   \<and> alerts (pollAlerts w_wa two_alerts) ! 0 = temp_alert Temp_above None (Some High)
   \<and> lastTriggeredAt (alerts (pollAlerts w_wa two_alerts) ! 0) = None
   \<and> map dispatch_id (dispatched (fx (pollAlerts w_wa two_alerts))) = [''a2'']"
proof -
  have h: "0 < length (alerts two_alerts)"
    "c_type (alert_condition (alerts two_alerts ! 0)) \<in> {Temp_above, Temp_below, Wind_above}"
    "threshold (alert_condition (alerts two_alerts ! 0)) = None"
    "distinct (map alert_id (alerts two_alerts))"
    by (simp_all add: two_alerts_def temp_alert_def)
  have a0: "alerts two_alerts ! 0 = temp_alert Temp_above None (Some High)"
    by (simp add: two_alerts_def)
  from no_threshold_never_fires [OF h, of w_wa no_effects] a0 two_alerts_poll
  show ?thesis by (simp add: temp_alert_def)
qed

subsection \<open>The aggregator, case by case\<close>

lemma lru_get_miss_cache:
  "fst (lru_get ttl now k c) = None \<Longrightarrow> c = [] \<Longrightarrow> snd (lru_get ttl now k c) = []"
  by (simp add: lru_get_def)

lemma getCurrentWeather_hit:
  assumes "fst (lru_get (cacheTtlSeconds (w_config w) * 1000) (w_now w)
             (keyOf ''current'' q (ExtraUnits (units_or_default (w_config w) ua)))
             (currentCache s)) = Some d"
  shows "getCurrentWeather w q ua s =
         (Inr d, s\<lparr>currentCache := snd (lru_get (cacheTtlSeconds (w_config w) * 1000) (w_now w)
             (keyOf ''current'' q (ExtraUnits (units_or_default (w_config w) ua)))
             (currentCache s))\<rparr>)"
  using assms
  by (simp add: getCurrentWeather_def units_or_default_def Let_def split_def)

lemma getCurrentWeather_wa_ok:
  assumes "current_miss w q ua s" "weatherApiKey (w_config w) \<noteq> []"
      "fst (wa_getCurrent (w_upstream w) (w_now w) q) = Inr d"
  shows "fst (getCurrentWeather w q ua s) = Inr d"
    and "netCalls (snd (getCurrentWeather w q ua s))
         = netCalls s @ snd (wa_getCurrent (w_upstream w) (w_now w) q)"
    and "warnings (snd (getCurrentWeather w q ua s)) = warnings s"
  using assms
  by (simp_all add: getCurrentWeather_def current_miss_def units_or_default_def Let_def split_def
        sent_def)

lemma getCurrentWeather_wa_skipped:
  assumes "current_miss w q ua s" "weatherApiKey (w_config w) = []"
  shows "fst (getCurrentWeather w q ua s) =
           (if openWeatherApiKey (w_config w) \<noteq> []
            then fst (ow_getCurrent (w_num_str w) (w_upstream w) q (units_or_default (w_config w) ua))
            else Inl noProvider)"
    and "netCalls (snd (getCurrentWeather w q ua s)) =
           netCalls s @
           (if openWeatherApiKey (w_config w) \<noteq> []
            then snd (ow_getCurrent (w_num_str w) (w_upstream w) q (units_or_default (w_config w) ua))
            else [])"
    and "warnings (snd (getCurrentWeather w q ua s)) = warnings s"
  using assms
  by (simp_all add: getCurrentWeather_def current_miss_def units_or_default_def Let_def split_def
        sent_def split: sum.splits)

lemma getCurrentWeather_wa_failed:
  assumes "current_miss w q ua s" "weatherApiKey (w_config w) \<noteq> []"
      "fst (wa_getCurrent (w_upstream w) (w_now w) q) = Inl e1"
  shows "fst (getCurrentWeather w q ua s) =
           (if openWeatherApiKey (w_config w) \<noteq> []
            then fst (ow_getCurrent (w_num_str w) (w_upstream w) q (units_or_default (w_config w) ua))
            else Inl noProvider)"
    and "netCalls (snd (getCurrentWeather w q ua s)) =
           netCalls s @ snd (wa_getCurrent (w_upstream w) (w_now w) q) @
           (if openWeatherApiKey (w_config w) \<noteq> []
            then snd (ow_getCurrent (w_num_str w) (w_upstream w) q (units_or_default (w_config w) ua))
            else [])"
    and "warnings (snd (getCurrentWeather w q ua s)) =
           warnings s @ [''WeatherAPI current failed, falling back to OpenWeather: '' @ err_message e1]"
  using assms
  by (simp_all add: getCurrentWeather_def current_miss_def units_or_default_def Let_def split_def
        sent_def warn_def split: sum.splits)

lemma getCurrentWeather_other_caches:
  "forecastCache (snd (getCurrentWeather w q ua s)) = forecastCache s
   \<and> historicalCache (snd (getCurrentWeather w q ua s)) = historicalCache s"
  by (simp add: getCurrentWeather_def Let_def split_def sent_def warn_def
      split: sum.splits option.splits)

lemma getCurrentWeather_hit_calls:
  assumes "\<not> current_miss w q ua s"
  shows "netCalls (snd (getCurrentWeather w q ua s)) = netCalls s"
    and "\<exists>d. fst (getCurrentWeather w q ua s) = Inr d"
  using assms
  by (auto simp: getCurrentWeather_def current_miss_def units_or_default_def Let_def split_def)

lemma getForecast_wa_ok:
  assumes "forecast_miss w q ua da s" "weatherApiKey (w_config w) \<noteq> []"
      "fst (wa_getForecast (w_upstream w) q (case da of None \<Rightarrow> 3 | Some n \<Rightarrow> n)) = Inr d"
  shows "fst (getForecast w q ua da s) = Inr d"
  using assms
  by (simp_all add: getForecast_def forecast_miss_def units_or_default_def Let_def split_def
        sent_def)

lemma getForecast_wa_skipped:
  assumes "forecast_miss w q ua da s" "weatherApiKey (w_config w) = []"
  shows "fst (getForecast w q ua da s) =
           (if openWeatherApiKey (w_config w) \<noteq> []
            then fst (ow_getForecast (w_num_str w) (w_upstream w) q
                        (units_or_default (w_config w) ua) (case da of None \<Rightarrow> 3 | Some n \<Rightarrow> n))
            else Inl noProvider)"
    and "warnings (snd (getForecast w q ua da s)) = warnings s"
  using assms
  by (simp_all add: getForecast_def forecast_miss_def units_or_default_def Let_def split_def
        sent_def split: sum.splits)

lemma getForecast_wa_failed:
  assumes "forecast_miss w q ua da s" "weatherApiKey (w_config w) \<noteq> []"
      "fst (wa_getForecast (w_upstream w) q (case da of None \<Rightarrow> 3 | Some n \<Rightarrow> n)) = Inl e1"
  shows "fst (getForecast w q ua da s) =
           (if openWeatherApiKey (w_config w) \<noteq> []
            then fst (ow_getForecast (w_num_str w) (w_upstream w) q
                        (units_or_default (w_config w) ua) (case da of None \<Rightarrow> 3 | Some n \<Rightarrow> n))
            else Inl noProvider)"
    and "warnings (snd (getForecast w q ua da s)) =
           warnings s @ [''WeatherAPI forecast failed, falling back to OpenWeather: '' @ err_message e1]"
  using assms
  by (simp_all add: getForecast_def forecast_miss_def units_or_default_def Let_def split_def
        sent_def warn_def split: sum.splits)

lemma getForecast_hit:
  assumes "\<not> forecast_miss w q ua da s"
  shows "netCalls (snd (getForecast w q ua da s)) = netCalls s"
    and "\<exists>d. fst (getForecast w q ua da s) = Inr d"
  using assms
  by (auto simp: getForecast_def forecast_miss_def units_or_default_def Let_def split_def)

lemma getForecast_other_caches:
  "currentCache (snd (getForecast w q ua da s)) = currentCache s
   \<and> historicalCache (snd (getForecast w q ua da s)) = historicalCache s"
  by (simp add: getForecast_def Let_def split_def sent_def warn_def
      split: sum.splits option.splits)

lemma getHistorical_hit:
  assumes "\<not> historical_miss w q dateISO s"
  shows "netCalls (snd (getHistorical w q dateISO s)) = netCalls s"
    and "\<exists>d. fst (getHistorical w q dateISO s) = Inr d"
  using assms
  by (auto simp: getHistorical_def historical_miss_def Let_def split_def)

lemma getHistorical_wa_ok:
  assumes "historical_miss w q dateISO s" "weatherApiKey (w_config w) \<noteq> []"
      "fst (wa_getHistorical (w_upstream w) (w_now w) q dateISO) = Inr d"
  shows "fst (getHistorical w q dateISO s) = Inr d"
    and "netCalls (snd (getHistorical w q dateISO s))
         = netCalls s @ snd (wa_getHistorical (w_upstream w) (w_now w) q dateISO)"
  using assms
  by (simp_all add: getHistorical_def historical_miss_def Let_def split_def sent_def)

lemma getHistorical_wa_skipped:
  assumes "historical_miss w q dateISO s" "weatherApiKey (w_config w) = []"
  shows "fst (getHistorical w q dateISO s) = Inl noHistorical"
    and "netCalls (snd (getHistorical w q dateISO s)) = netCalls s"
    and "historicalCache (snd (getHistorical w q dateISO s))
         = snd (lru_get (cacheTtlSeconds (w_config w) * 1000) (w_now w)
             (keyOf ''historical'' q (ExtraDate dateISO)) (historicalCache s))"
  using assms
  by (simp_all add: getHistorical_def historical_miss_def Let_def split_def)

lemma getHistorical_wa_failed:
  assumes "historical_miss w q dateISO s" "weatherApiKey (w_config w) \<noteq> []"
      "fst (wa_getHistorical (w_upstream w) (w_now w) q dateISO) = Inl e1"
  shows "fst (getHistorical w q dateISO s) = Inl noHistorical"
    and "netCalls (snd (getHistorical w q dateISO s))
         = netCalls s @ snd (wa_getHistorical (w_upstream w) (w_now w) q dateISO)"
    and "warnings (snd (getHistorical w q dateISO s))
         = warnings s @ [''WeatherAPI historical failed: '' @ err_message e1]"
  using assms
  by (simp_all add: getHistorical_def historical_miss_def Let_def split_def sent_def warn_def)

lemma getHistorical_other_caches:
  "currentCache (snd (getHistorical w q dateISO s)) = currentCache s
   \<and> forecastCache (snd (getHistorical w q dateISO s)) = forecastCache s"
  by (simp add: getHistorical_def Let_def split_def sent_def warn_def
      split: sum.splits option.splits)

text \<open>Requests of the adapters: none on an unresolved query, one otherwise.\<close>

lemma wa_getHistorical_requests:
  "\<forall>r \<in> set (snd (wa_getHistorical up now q dateISO)). is_wa_history r"
  by (simp add: wa_getHistorical_def is_wa_history_def Let_def split: sum.splits)

lemma wa_getCurrent_requests:
  "length (snd (wa_getCurrent up now q)) \<le> 1
   \<and> (\<forall>d. fst (wa_getCurrent up now q) = Inr d \<longrightarrow> length (snd (wa_getCurrent up now q)) = 1)"
  by (simp add: wa_getCurrent_def Let_def split: sum.splits)

lemma ow_getCurrent_requests:
  "length (snd (ow_getCurrent ns up q u)) \<le> 1
   \<and> (\<forall>d. fst (ow_getCurrent ns up q u) = Inr d \<longrightarrow> length (snd (ow_getCurrent ns up q u)) = 1)"
  by (simp add: ow_getCurrent_def Let_def split: sum.splits)

lemma ow_getCurrent_answer:
  assumes "resolveQueryParams q = Inr p"
      and "ow_current_api up p (unitsParam u) = Inr raw"
      and "js_time_valid (oc_dt raw * 1000)"
  shows "\<exists>d. ow_getCurrent ns up q u = (Inr d, [OW_Current p (unitsParam u)])
            \<and> ow_normalized ns u raw d"
  using assms
  by (cases u)
     (simp_all add: ow_getCurrent_def ow_normalized_def ow_condition_def celsiusToFahrenheit_def
        fahrenheitToCelsius_def msToKph_def kphToMph_def mphToKph_def
        split: option.splits)

subsection \<open>Failures of the providers\<close>

lemma getCurrentWeather_errors:
  assumes "fst (getCurrentWeather w q ua s) = Inl e"
  shows "e = noProvider
       \<or> (openWeatherApiKey (w_config w) \<noteq> []
          \<and> fst (ow_getCurrent (w_num_str w) (w_upstream w) q (units_or_default (w_config w) ua))
              = Inl e)"
proof (cases "current_miss w q ua s")
  case False
  from getCurrentWeather_hit_calls(2) [OF False] assms show ?thesis by auto
next
  case miss: True
  show ?thesis
  proof (cases "weatherApiKey (w_config w) = []")
    case True
    from getCurrentWeather_wa_skipped(1) [OF miss True] assms show ?thesis
      by (auto split: if_splits)
  next
    case False
    show ?thesis
    proof (cases "fst (wa_getCurrent (w_upstream w) (w_now w) q)")
      case (Inl e1)
      from getCurrentWeather_wa_failed(1) [OF miss False Inl] assms show ?thesis
        by (auto split: if_splits)
    next
      case (Inr d)
      from getCurrentWeather_wa_ok(1) [OF miss False Inr] assms show ?thesis by simp
    qed
  qed
qed

lemma getForecast_errors:
  assumes "fst (getForecast w q ua da s) = Inl e"
  shows "e = noProvider
       \<or> (openWeatherApiKey (w_config w) \<noteq> []
          \<and> fst (ow_getForecast (w_num_str w) (w_upstream w) q (units_or_default (w_config w) ua)
                   (case da of None \<Rightarrow> 3 | Some n \<Rightarrow> n)) = Inl e)"
proof (cases "forecast_miss w q ua da s")
  case False
  from getForecast_hit(2) [OF False] assms show ?thesis by auto
next
  case miss: True
  show ?thesis
  proof (cases "weatherApiKey (w_config w) = []")
    case True
    from getForecast_wa_skipped(1) [OF miss True] assms show ?thesis
      by (auto split: if_splits)
  next
    case False
    show ?thesis
    proof (cases "fst (wa_getForecast (w_upstream w) q (case da of None \<Rightarrow> 3 | Some n \<Rightarrow> n))")
      case (Inl e1)
      from getForecast_wa_failed(1) [OF miss False Inl] assms show ?thesis
        by (auto split: if_splits)
    next
      case (Inr d)
      from getForecast_wa_ok [OF miss False Inr] assms show ?thesis by simp
    qed
  qed
qed

lemma getHistorical_errors:
  assumes "fst (getHistorical w q dateISO s) = Inl e"
  shows "e = noHistorical"
proof (cases "historical_miss w q dateISO s")
  case False
  from getHistorical_hit(2) [OF False] assms show ?thesis by auto
next
  case miss: True
  show ?thesis
  proof (cases "weatherApiKey (w_config w) = []")
    case True
    from getHistorical_wa_skipped(1) [OF miss True] assms show ?thesis by simp
  next
    case False
    show ?thesis
    proof (cases "fst (wa_getHistorical (w_upstream w) (w_now w) q dateISO)")
      case (Inl e1)
      from getHistorical_wa_failed(1) [OF miss False Inl] assms show ?thesis by simp
    next
      case (Inr d)
      from getHistorical_wa_ok(1) [OF miss False Inr] assms show ?thesis by simp
    qed
  qed
qed

text \<open>
  C1, as the code has it. A failure of the WeatherAPI adapter is absorbed: it is logged by
  \<open>console.warn\<close> and the call goes on, to the OpenWeather adapter when its key is configured
  (\<open>getCurrentWeather\<close>, \<open>getForecast\<close>) or to the terminal error (\<open>getHistorical\<close>). A failure
  of the OpenWeather adapter, which is tried last, is not caught: the caller gets that error.
  So a failing call ends with the terminal error or with the error of the OpenWeather adapter.
\<close>

theorem provider_failures_absorbed:
  "(fst (getCurrentWeather w q ua s) = Inl e \<longrightarrow>
      e = noProvider
      \<or> (openWeatherApiKey (w_config w) \<noteq> []
         \<and> fst (ow_getCurrent (w_num_str w) (w_upstream w) q (units_or_default (w_config w) ua))
             = Inl e))
   \<and> (fst (getForecast w q ua da s) = Inl e \<longrightarrow>
      e = noProvider
      \<or> (openWeatherApiKey (w_config w) \<noteq> []
         \<and> fst (ow_getForecast (w_num_str w) (w_upstream w) q (units_or_default (w_config w) ua)
                  (case da of None \<Rightarrow> 3 | Some n \<Rightarrow> n)) = Inl e))
   \<and> (fst (getHistorical w q dateISO s) = Inl e \<longrightarrow> e = noHistorical)
   \<and> (current_miss w q ua s \<and> weatherApiKey (w_config w) \<noteq> []
        \<and> fst (wa_getCurrent (w_upstream w) (w_now w) q) = Inl e1 \<longrightarrow>
      fst (getCurrentWeather w q ua s) =
        (if openWeatherApiKey (w_config w) \<noteq> []
         then fst (ow_getCurrent (w_num_str w) (w_upstream w) q (units_or_default (w_config w) ua))
         else Inl noProvider)
      \<and> warnings (snd (getCurrentWeather w q ua s)) =
          warnings s @ [''WeatherAPI current failed, falling back to OpenWeather: '' @ err_message e1])
   \<and> (forecast_miss w q ua da s \<and> weatherApiKey (w_config w) \<noteq> []
        \<and> fst (wa_getForecast (w_upstream w) q (case da of None \<Rightarrow> 3 | Some n \<Rightarrow> n)) = Inl e1 \<longrightarrow>
      fst (getForecast w q ua da s) =
        (if openWeatherApiKey (w_config w) \<noteq> []
         then fst (ow_getForecast (w_num_str w) (w_upstream w) q (units_or_default (w_config w) ua)
                     (case da of None \<Rightarrow> 3 | Some n \<Rightarrow> n))
         else Inl noProvider)
      \<and> warnings (snd (getForecast w q ua da s)) =
          warnings s @ [''WeatherAPI forecast failed, falling back to OpenWeather: '' @ err_message e1])
   \<and> (historical_miss w q dateISO s \<and> weatherApiKey (w_config w) \<noteq> []
        \<and> fst (wa_getHistorical (w_upstream w) (w_now w) q dateISO) = Inl e1 \<longrightarrow>
      fst (getHistorical w q dateISO s) = Inl noHistorical
      \<and> warnings (snd (getHistorical w q dateISO s)) =
          warnings s @ [''WeatherAPI historical failed: '' @ err_message e1])"
proof (intro conjI impI)
  assume "fst (getCurrentWeather w q ua s) = Inl e"
  then show "e = noProvider
      \<or> (openWeatherApiKey (w_config w) \<noteq> []
         \<and> fst (ow_getCurrent (w_num_str w) (w_upstream w) q (units_or_default (w_config w) ua))
             = Inl e)"
    by (rule getCurrentWeather_errors)
next
  assume "fst (getForecast w q ua da s) = Inl e"
  then show "e = noProvider
      \<or> (openWeatherApiKey (w_config w) \<noteq> []
         \<and> fst (ow_getForecast (w_num_str w) (w_upstream w) q (units_or_default (w_config w) ua)
                  (case da of None \<Rightarrow> 3 | Some n \<Rightarrow> n)) = Inl e)"
    by (rule getForecast_errors)
next
  assume "fst (getHistorical w q dateISO s) = Inl e"
  then show "e = noHistorical" by (rule getHistorical_errors)
qed (simp_all add: getCurrentWeather_wa_failed getForecast_wa_failed getHistorical_wa_failed)

lemma w_wa_down_eval:
  "current_miss w_wa_down paris None init_agg"
  "weatherApiKey (w_config w_wa_down) \<noteq> []"
  "openWeatherApiKey (w_config w_wa_down) = []"
  "fst (wa_getCurrent (w_upstream w_wa_down) (w_now w_wa_down) paris) = Inl (Error ''Network Error'')"
  by (simp_all add: current_miss_def w_wa_down_def world_of_def cfg_keys_def init_agg_def
        lru_get_def wa_getCurrent_def resolveQuery_def paris_def failing_upstream_def)

theorem provider_failures_absorbed_witness:
  "fst (getCurrentWeather w_wa_down paris None init_agg) = Inl noProvider
   \<and> warnings (snd (getCurrentWeather w_wa_down paris None init_agg))
       = [''WeatherAPI current failed, falling back to OpenWeather: Network Error'']"
  using provider_failures_absorbed
          [where w = w_wa_down and q = paris and ua = None and s = init_agg
             and ?e1.0 = "Error ''Network Error''"]
        w_wa_down_eval
  by (simp add: init_agg_def err_message_def)

text \<open>
  C1 as stated fails: with both providers configured and down, the caller of
  \<open>getCurrentWeather\<close> gets the network error of the OpenWeather adapter, which is neither a
  result nor the terminal error.
\<close>

theorem ow_failure_propagates_counterexample:
  "fst (getCurrentWeather w_both_down paris None init_agg) = Inl (Error ''Network Error'')
   \<and> Error ''Network Error'' \<noteq> noProvider"
  by (simp add: getCurrentWeather_def w_both_down_def world_of_def cfg_keys_def init_agg_def
        lru_get_def wa_getCurrent_def ow_getCurrent_def resolveQuery_def resolveQueryParams_def
        paris_def failing_upstream_def noProvider_def Let_def sent_def warn_def unitsParam_def)

subsection \<open>Fallback to the second provider\<close>

text \<open>
  C6. With both keys configured and no live cache entry, when the WeatherAPI adapter fails and
  OpenWeather answers the resolved query (with a valid time), \<open>getCurrentWeather\<close> returns the
  record of the OpenWeather adapter: the normalized form of the answer, tagged "openweather",
  with both unit systems filled. The failure of the first provider appears only in the
  warning log, and the requests sent are those of the first adapter followed by the one
  OpenWeather request.
\<close>

theorem fallback_to_second_provider:
  assumes "weatherApiKey (w_config w) \<noteq> []" "openWeatherApiKey (w_config w) \<noteq> []"
      and "current_miss w q ua s"
      and "fst (wa_getCurrent (w_upstream w) (w_now w) q) = Inl e1"
      and "resolveQueryParams q = Inr p"
      and "ow_current_api (w_upstream w) p (unitsParam (units_or_default (w_config w) ua)) = Inr raw"
      and "js_time_valid (oc_dt raw * 1000)"
  shows "\<exists>d. fst (getCurrentWeather w q ua s) = Inr d
            \<and> fst (ow_getCurrent (w_num_str w) (w_upstream w) q (units_or_default (w_config w) ua))
                = Inr d
            \<and> ow_normalized (w_num_str w) (units_or_default (w_config w) ua) raw d
            \<and> provider d = ''openweather''
            \<and> warnings (snd (getCurrentWeather w q ua s)) =
                warnings s
                @ [''WeatherAPI current failed, falling back to OpenWeather: '' @ err_message e1]
            \<and> netCalls (snd (getCurrentWeather w q ua s)) =
                netCalls s @ snd (wa_getCurrent (w_upstream w) (w_now w) q)
                @ [OW_Current p (unitsParam (units_or_default (w_config w) ua))]"
proof -
  from ow_getCurrent_answer [OF assms(5,6,7), of "w_num_str w"] obtain d where
    d: "ow_getCurrent (w_num_str w) (w_upstream w) q (units_or_default (w_config w) ua)
        = (Inr d, [OW_Current p (unitsParam (units_or_default (w_config w) ua))])"
    "ow_normalized (w_num_str w) (units_or_default (w_config w) ua) raw d"
    by blast
  have p: "provider d = ''openweather''" using d(2) by (simp add: ow_normalized_def)
  show ?thesis
    using getCurrentWeather_wa_failed [OF assms(3,1,4)] assms(2) d p
    by (intro exI [of _ d]) simp
qed

lemma w_fallback_eval:
  "weatherApiKey (w_config w_fallback) \<noteq> []" "openWeatherApiKey (w_config w_fallback) \<noteq> []"
  "current_miss w_fallback paris None init_agg"
  "fst (wa_getCurrent (w_upstream w_fallback) (w_now w_fallback) paris) = Inl (Error ''Network Error'')"
  "\<exists>d. fst (ow_getCurrent (w_num_str w_fallback) (w_upstream w_fallback) paris
              (units_or_default (w_config w_fallback) None)) = Inr d
       \<and> temperatureC d = 20 \<and> loc_name (location d) = ''Paris''"
  by (simp_all add: current_miss_def w_fallback_def world_of_def cfg_keys_def init_agg_def
        lru_get_def wa_getCurrent_def resolveQuery_def paris_def failing_upstream_def up_ow_def
        ow_getCurrent_def resolveQueryParams_def units_or_default_def unitsParam_def ow_20_def
        js_time_valid_def)

lemma w_fallback_answer:
  "resolveQueryParams paris = Inr (ByCity ''Paris'' None)"
  "ow_current_api (w_upstream w_fallback) (ByCity ''Paris'' None)
     (unitsParam (units_or_default (w_config w_fallback) None)) = Inr ow_20"
  "js_time_valid (oc_dt ow_20 * 1000)"
  "units_or_default (w_config w_fallback) None = Metric"
  by (simp_all add: w_fallback_def world_of_def cfg_keys_def paris_def failing_upstream_def up_ow_def
        resolveQueryParams_def units_or_default_def unitsParam_def ow_20_def js_time_valid_def)

lemma converted_20:
  "celsiusToFahrenheit 20 = 68"
  "msToKph 5 = 18"
  by (code_simp, code_simp)

theorem fallback_to_second_provider_witness:
  "\<not> isl (fst (getCurrentWeather w_fallback paris None init_agg))
   \<and> provider (projr (fst (getCurrentWeather w_fallback paris None init_agg))) = ''openweather''
   \<and> temperatureC (projr (fst (getCurrentWeather w_fallback paris None init_agg))) = 20
   \<and> temperatureF (projr (fst (getCurrentWeather w_fallback paris None init_agg))) = 68
   \<and> windKph (projr (fst (getCurrentWeather w_fallback paris None init_agg))) = Some 18
   \<and> warnings (snd (getCurrentWeather w_fallback paris None init_agg))
       = [''WeatherAPI current failed, falling back to OpenWeather: Network Error'']"
proof -
  from fallback_to_second_provider [OF w_fallback_eval(1,2,3,4) w_fallback_answer(1,2,3)]
  obtain d where
    d: "fst (getCurrentWeather w_fallback paris None init_agg) = Inr d"
    "ow_normalized (w_num_str w_fallback) (units_or_default (w_config w_fallback) None) ow_20 d"
    "warnings (snd (getCurrentWeather w_fallback paris None init_agg)) =
       warnings init_agg
       @ [''WeatherAPI current failed, falling back to OpenWeather: ''
          @ err_message (Error ''Network Error'')]"
    by (elim exE conjE)
  from d(2) have v: "provider d = ''openweather''" "temperatureC d = 20" "temperatureF d = 68"
    "windKph d = Some 18"
    by (simp_all add: ow_normalized_def w_fallback_answer(4) ow_20_def converted_20)
  from d(1,3) v show ?thesis by (simp add: init_agg_def err_message_def)
qed

subsection \<open>States reached without keys\<close>

lemma reachable_no_keys:
  assumes "reachable cfg s" "weatherApiKey cfg = []" "openWeatherApiKey cfg = []"
  shows "s = init_agg"
  using assms
proof (induction rule: reachable.induct)
  case r_init
  show ?case by simp
next
  case (r_current s w q ua)
  then show ?case
    by (simp add: getCurrentWeather_def init_agg_def lru_get_def Let_def)
next
  case (r_forecast s w q ua da)
  then show ?case
    by (simp add: getForecast_def init_agg_def lru_get_def Let_def)
next
  case (r_historical s w q dateISO)
  then show ?case
    by (simp add: getHistorical_def init_agg_def lru_get_def Let_def)
qed

lemma reachable_no_wa_key:
  assumes "reachable cfg s" "weatherApiKey cfg = []"
  shows "historicalCache s = []"
  using assms
proof (induction rule: reachable.induct)
  case r_init
  show ?case by (simp add: init_agg_def)
next
  case (r_current s w q ua)
  then show ?case by (simp add: getCurrentWeather_other_caches)
next
  case (r_forecast s w q ua da)
  then show ?case by (simp add: getForecast_other_caches)
next
  case (r_historical s w q dateISO)
  then have e: "historicalCache s = []" and k: "weatherApiKey (w_config w) = []" by simp_all
  have m: "historical_miss w q dateISO s" by (simp add: historical_miss_def e lru_get_def)
  show ?case
    using getHistorical_wa_skipped(3) [OF m k] by (simp add: e lru_get_def)
qed

subsection \<open>No provider available\<close>

text \<open>
  C5, as the code has it. With no key configured, in every state the module can reach,
  \<open>getCurrentWeather\<close> throws the "No weather provider available" error; the state is unchanged
  and no request has ever been sent. When no OpenWeather key is configured and the
  store has no live entry, the call ends with that same error whether no WeatherAPI key is
  configured or the WeatherAPI adapter failed: the error does not tell the two apart.
\<close>

theorem no_provider_available:
  "(weatherApiKey (w_config w) = [] \<and> openWeatherApiKey (w_config w) = []
      \<and> reachable (w_config w) s \<longrightarrow>
      getCurrentWeather w q ua s = (Inl noProvider, s) \<and> netCalls s = [])
   \<and> (current_miss w q ua s \<and> openWeatherApiKey (w_config w) = []
       \<and> (weatherApiKey (w_config w) = []
           \<or> fst (wa_getCurrent (w_upstream w) (w_now w) q) = Inl e1) \<longrightarrow>
      fst (getCurrentWeather w q ua s) = Inl noProvider)"
proof (rule conjI; rule impI)
  assume a: "weatherApiKey (w_config w) = [] \<and> openWeatherApiKey (w_config w) = []
      \<and> reachable (w_config w) s"
  then have s: "s = init_agg" using reachable_no_keys by blast
  show "getCurrentWeather w q ua s = (Inl noProvider, s) \<and> netCalls s = []"
    using a by (simp add: s getCurrentWeather_def init_agg_def lru_get_def Let_def)
next
  assume a: "current_miss w q ua s \<and> openWeatherApiKey (w_config w) = []
       \<and> (weatherApiKey (w_config w) = []
           \<or> fst (wa_getCurrent (w_upstream w) (w_now w) q) = Inl e1)"
  show "fst (getCurrentWeather w q ua s) = Inl noProvider"
  proof (cases "weatherApiKey (w_config w) = []")
    case True
    with a getCurrentWeather_wa_skipped(1) [of w q ua s] show ?thesis by simp
  next
    case False
    with a getCurrentWeather_wa_failed(1) [of w q ua s e1] show ?thesis by simp
  qed
qed

theorem no_provider_available_witness:
  "getCurrentWeather w_no_keys paris None init_agg = (Inl noProvider, init_agg)
   \<and> netCalls init_agg = []
   \<and> fst (getCurrentWeather w_wa_down paris None init_agg) = Inl noProvider"
proof -
  have k: "weatherApiKey (w_config w_no_keys) = []" "openWeatherApiKey (w_config w_no_keys) = []"
    by (simp_all add: w_no_keys_def world_of_def cfg_keys_def)
  have r: "reachable (w_config w_no_keys) init_agg" by (rule r_init)
  from no_provider_available [of w_no_keys init_agg paris None] k r
  have 1: "getCurrentWeather w_no_keys paris None init_agg = (Inl noProvider, init_agg)
           \<and> netCalls init_agg = []"
    by simp
  from no_provider_available [of w_wa_down init_agg paris None "Error ''Network Error''"]
    w_wa_down_eval
  have 2: "fst (getCurrentWeather w_wa_down paris None init_agg) = Inl noProvider"
    by simp
  from 1 2 show ?thesis by simp
qed

text \<open>
  C5 as stated fails in its second part: with no provider configured, and with WeatherAPI
  configured and failing, the caller gets the same error value.
\<close>

theorem terminal_error_counterexample:
  "weatherApiKey (w_config w_no_keys) = [] \<and> openWeatherApiKey (w_config w_no_keys) = []
   \<and> weatherApiKey (w_config w_wa_down) \<noteq> []
   \<and> netCalls (snd (getCurrentWeather w_wa_down paris None init_agg))
       = [WA_Current (ByCity ''Paris'' None)]
   \<and> fst (getCurrentWeather w_no_keys paris None init_agg)
       = fst (getCurrentWeather w_wa_down paris None init_agg)"
  by (simp add: getCurrentWeather_def w_no_keys_def w_wa_down_def world_of_def cfg_keys_def
        init_agg_def lru_get_def wa_getCurrent_def resolveQuery_def paris_def
        failing_upstream_def Let_def sent_def warn_def)

subsection \<open>Historical data\<close>

lemma getHistorical_requests:
  "\<exists>new. netCalls (snd (getHistorical w q dateISO s)) = netCalls s @ new
         \<and> (\<forall>r \<in> set new. is_wa_history r)"
proof (cases "historical_miss w q dateISO s")
  case False
  from getHistorical_hit(1) [OF False] show ?thesis by simp
next
  case miss: True
  show ?thesis
  proof (cases "weatherApiKey (w_config w) = []")
    case True
    from getHistorical_wa_skipped(2) [OF miss True] show ?thesis by simp
  next
    case False
    show ?thesis
    proof (cases "fst (wa_getHistorical (w_upstream w) (w_now w) q dateISO)")
      case (Inl e1)
      from getHistorical_wa_failed(2) [OF miss False Inl] wa_getHistorical_requests
      show ?thesis by blast
    next
      case (Inr d)
      from getHistorical_wa_ok(2) [OF miss False Inr] wa_getHistorical_requests
      show ?thesis by blast
    qed
  qed
qed

text \<open>
  C9. The historical function of the OpenWeather adapter returns null and sends nothing, and
  \<open>getHistorical\<close> never calls it: every request of \<open>getHistorical\<close> goes to the history
  endpoint of WeatherAPI. Without a WeatherAPI key (in any state the module can reach), or
  when the WeatherAPI call fails, \<open>getHistorical\<close> throws its terminal error, whatever the
  OpenWeather key is.
\<close>

theorem historical_only_weatherapi:
  "ow_getHistorical = (Inr None, [])
   \<and> (\<exists>new. netCalls (snd (getHistorical w q dateISO s)) = netCalls s @ new
         \<and> (\<forall>r \<in> set new. is_wa_history r))
   \<and> (weatherApiKey (w_config w) = [] \<and> reachable (w_config w) s \<longrightarrow>
        fst (getHistorical w q dateISO s) = Inl noHistorical
        \<and> netCalls (snd (getHistorical w q dateISO s)) = netCalls s)
   \<and> (historical_miss w q dateISO s
        \<and> fst (wa_getHistorical (w_upstream w) (w_now w) q dateISO) = Inl e1 \<longrightarrow>
        fst (getHistorical w q dateISO s) = Inl noHistorical)"
proof (intro conjI impI)
  show "ow_getHistorical = (Inr None, [])" by (simp add: ow_getHistorical_def)
next
  show "\<exists>new. netCalls (snd (getHistorical w q dateISO s)) = netCalls s @ new
         \<and> (\<forall>r \<in> set new. is_wa_history r)"
    by (rule getHistorical_requests)
next
  assume a: "weatherApiKey (w_config w) = [] \<and> reachable (w_config w) s"
  then have "historicalCache s = []" using reachable_no_wa_key by blast
  then have m: "historical_miss w q dateISO s" by (simp add: historical_miss_def lru_get_def)
  from a have k: "weatherApiKey (w_config w) = []" by simp
  show "fst (getHistorical w q dateISO s) = Inl noHistorical" 
    by (rule getHistorical_wa_skipped(1) [OF m k])
  show "netCalls (snd (getHistorical w q dateISO s)) = netCalls s"
    by (rule getHistorical_wa_skipped(2) [OF m k])
next
  assume a: "historical_miss w q dateISO s
        \<and> fst (wa_getHistorical (w_upstream w) (w_now w) q dateISO) = Inl e1"
  show "fst (getHistorical w q dateISO s) = Inl noHistorical"
  proof (cases "weatherApiKey (w_config w) = []")
    case True
    with a getHistorical_wa_skipped(1) [of w q dateISO s] show ?thesis by simp
  next
    case False
    with a getHistorical_wa_failed(1) [of w q dateISO s e1] show ?thesis by simp
  qed
qed

lemma w_fallback_hist:
  "historical_miss w_fallback paris ''2024-01-01'' init_agg"
  "fst (wa_getHistorical (w_upstream w_fallback) (w_now w_fallback) paris ''2024-01-01'')
   = Inl (Error ''Network Error'')"
  "openWeatherApiKey (w_config w_fallback) \<noteq> []"
  by (simp_all add: historical_miss_def w_fallback_def world_of_def cfg_keys_def init_agg_def
        lru_get_def wa_getHistorical_def resolveQuery_def paris_def failing_upstream_def up_ow_def)

theorem historical_only_weatherapi_witness:
  "openWeatherApiKey (w_config w_ow_only) \<noteq> []
   \<and> fst (getHistorical w_ow_only paris ''2024-01-01'' init_agg) = Inl noHistorical
   \<and> netCalls (snd (getHistorical w_ow_only paris ''2024-01-01'' init_agg)) = []
   \<and> openWeatherApiKey (w_config w_fallback) \<noteq> []
   \<and> fst (getHistorical w_fallback paris ''2024-01-01'' init_agg) = Inl noHistorical"
proof -
  have k: "weatherApiKey (w_config w_ow_only) = []" "openWeatherApiKey (w_config w_ow_only) \<noteq> []"
    by (simp_all add: w_ow_only_def world_of_def cfg_keys_def)
  have r: "reachable (w_config w_ow_only) init_agg" by (rule r_init)
  from historical_only_weatherapi [of w_ow_only paris "''2024-01-01''" init_agg] k(1) r
  have 1: "fst (getHistorical w_ow_only paris ''2024-01-01'' init_agg) = Inl noHistorical
        \<and> netCalls (snd (getHistorical w_ow_only paris ''2024-01-01'' init_agg)) = []"
    by (simp add: init_agg_def)
  from historical_only_weatherapi
         [of w_fallback paris "''2024-01-01''" init_agg "Error ''Network Error''"] w_fallback_hist
  have 2: "fst (getHistorical w_fallback paris ''2024-01-01'' init_agg) = Inl noHistorical"
    by simp
  from 1 2 k(2) w_fallback_hist(3) show ?thesis by simp
qed

subsection \<open>Cache hits\<close>

lemma map_of_filter_other: "map_of (filter (\<lambda>e. fst e \<noteq> k) c) k = None"
  by (induction c) auto

lemma lru_get_live:
  assumes "map_of c k = Some (v, t)" "now - t \<le> ttl"
  shows "fst (lru_get ttl now k c) = Some v"
  using assms by (simp add: lru_get_def)

lemma lru_get_hit_entry:
  assumes "fst (lru_get ttl now k c) = Some v"
  shows "\<exists>t. map_of c k = Some (v, t) \<and> now - t \<le> ttl
            \<and> map_of (snd (lru_get ttl now k c)) k = Some (v, t)"
  using assms by (auto simp: lru_get_def split: option.splits if_splits)

lemma lru_set_entry: "0 < cap \<Longrightarrow> map_of (lru_set cap now k v c) k = Some (v, now)"
  by (cases cap) (simp_all add: lru_set_def)

lemma getCurrentWeather_stores:
  assumes "getCurrentWeather w q ua s = (Inr d, s1)"
  shows "\<exists>t. map_of (currentCache s1)
               (keyOf ''current'' q (ExtraUnits (units_or_default (w_config w) ua))) = Some (d, t)
            \<and> (current_miss w q ua s \<longrightarrow> t = w_now w)"
proof (cases "current_miss w q ua s")
  case False
  then obtain d' where d': "fst (lru_get (cacheTtlSeconds (w_config w) * 1000) (w_now w)
             (keyOf ''current'' q (ExtraUnits (units_or_default (w_config w) ua)))
             (currentCache s)) = Some d'"
    by (auto simp: current_miss_def)
  from getCurrentWeather_hit [OF d'] assms lru_get_hit_entry [OF d'] False
  show ?thesis by auto
next
  case True
  have "map_of (currentCache s1)
          (keyOf ''current'' q (ExtraUnits (units_or_default (w_config w) ua)))
        = Some (d, w_now w)"
    using assms True
    by (auto simp: getCurrentWeather_def current_miss_def units_or_default_def Let_def split_def
          lru_set_entry split: sum.splits option.splits if_splits)
  then show ?thesis by simp
qed

lemma wa_req_le: "length (snd (wa_getCurrent up now q)) \<le> 1"
  using wa_getCurrent_requests by blast

lemma wa_req_ok: "fst (wa_getCurrent up now q) = Inr d \<Longrightarrow> length (snd (wa_getCurrent up now q)) = 1"
  using wa_getCurrent_requests by blast

lemma ow_req_ok:
  "fst (ow_getCurrent ns up q u) = Inr d \<Longrightarrow> length (snd (ow_getCurrent ns up q u)) = 1"
  using ow_getCurrent_requests by blast

lemma getCurrentWeather_miss_calls:
  assumes "current_miss w q ua s" "fst (getCurrentWeather w q ua s) = Inr d"
  shows "length (netCalls (snd (getCurrentWeather w q ua s))) - length (netCalls s) \<in> {1, 2}"
proof (cases "weatherApiKey (w_config w) = []")
  case True
  from getCurrentWeather_wa_skipped(1) [OF assms(1) True] assms(2)
  have k: "openWeatherApiKey (w_config w) \<noteq> []"
    and o: "fst (ow_getCurrent (w_num_str w) (w_upstream w) q (units_or_default (w_config w) ua)) = Inr d"
    by (auto simp: noProvider_def split: if_splits)
  from getCurrentWeather_wa_skipped(2) [OF assms(1) True] k ow_req_ok [OF o]
  show ?thesis by simp
next
  case False
  show ?thesis
  proof (cases "fst (wa_getCurrent (w_upstream w) (w_now w) q)")
    case (Inr d')
    from getCurrentWeather_wa_ok(2) [OF assms(1) False Inr] wa_req_ok [OF Inr]
    show ?thesis by simp
  next
    case (Inl e1)
    from getCurrentWeather_wa_failed(1) [OF assms(1) False Inl] assms(2)
    have k: "openWeatherApiKey (w_config w) \<noteq> []"
      and o: "fst (ow_getCurrent (w_num_str w) (w_upstream w) q (units_or_default (w_config w) ua)) = Inr d"
      by (auto simp: noProvider_def split: if_splits)
    have "length (snd (wa_getCurrent (w_upstream w) (w_now w) q)) = 0
          \<or> length (snd (wa_getCurrent (w_upstream w) (w_now w) q)) = 1"
      using wa_req_le [of "w_upstream w" "w_now w" q] by linarith
    with getCurrentWeather_wa_failed(2) [OF assms(1) False Inl] k ow_req_ok [OF o]
    show ?thesis by auto
  qed
qed

text \<open>
  C4, as the code has it. After a \<open>getCurrentWeather\<close> call that succeeded, a second call with
  the same arguments under the same configuration, made while the entry holding the record
  is within its TTL, returns the same record and sends no request. The entry is stamped with
  the time of the first call when that call went to the providers; such a first call sent
  one request, or two when WeatherAPI took a request before OpenWeather answered. A first
  call served from the cache sent none.
\<close>

theorem second_call_from_cache:
  assumes "getCurrentWeather w1 q ua s = (Inr d, s1)"
      and "w_config w2 = w_config w1"
      and "\<forall>t. map_of (currentCache s1)
                 (keyOf ''current'' q (ExtraUnits (units_or_default (w_config w1) ua))) = Some (d, t)
               \<longrightarrow> w_now w2 - t \<le> cacheTtlSeconds (w_config w1) * 1000"
  shows "fst (getCurrentWeather w2 q ua s1) = Inr d
       \<and> netCalls (snd (getCurrentWeather w2 q ua s1)) = netCalls s1
       \<and> (current_miss w1 q ua s \<longrightarrow>
            map_of (currentCache s1)
              (keyOf ''current'' q (ExtraUnits (units_or_default (w_config w1) ua)))
              = Some (d, w_now w1)
            \<and> length (netCalls s1) - length (netCalls s) \<in> {1, 2})
       \<and> (\<not> current_miss w1 q ua s \<longrightarrow> netCalls s1 = netCalls s)"
proof -
  let ?k = "keyOf ''current'' q (ExtraUnits (units_or_default (w_config w1) ua))"
  from getCurrentWeather_stores [OF assms(1)] obtain t where
    t: "map_of (currentCache s1) ?k = Some (d, t)" "current_miss w1 q ua s \<longrightarrow> t = w_now w1"
    by blast
  from assms(3) t(1) have "w_now w2 - t \<le> cacheTtlSeconds (w_config w1) * 1000" by blast
  from lru_get_live [OF t(1) this]
  have hit: "fst (lru_get (cacheTtlSeconds (w_config w2) * 1000) (w_now w2)
               (keyOf ''current'' q (ExtraUnits (units_or_default (w_config w2) ua)))
               (currentCache s1)) = Some d"
    by (simp add: assms(2))
  have nm: "\<not> current_miss w2 q ua s1" using hit by (simp add: current_miss_def)
  have A: "fst (getCurrentWeather w2 q ua s1) = Inr d"
    using getCurrentWeather_hit [OF hit] by simp
  have B: "netCalls (snd (getCurrentWeather w2 q ua s1)) = netCalls s1"
    by (rule getCurrentWeather_hit_calls(1) [OF nm])
  have C: "current_miss w1 q ua s \<longrightarrow>
            map_of (currentCache s1) ?k = Some (d, w_now w1)
            \<and> length (netCalls s1) - length (netCalls s) \<in> {1, 2}"
    using t getCurrentWeather_miss_calls [of w1 q ua s d] assms(1) by auto
  have D: "\<not> current_miss w1 q ua s \<longrightarrow> netCalls s1 = netCalls s"
    using getCurrentWeather_hit_calls(1) [of w1 q ua s] assms(1) by auto
  from A B C D show ?thesis by blast
qed

lemma w_fallback_success:
  "\<exists>d s1. getCurrentWeather w_fallback paris None init_agg = (Inr d, s1)"
  using getCurrentWeather_wa_failed(1) [OF w_fallback_eval(3,1,4)] w_fallback_eval(2,5)
  by (cases "getCurrentWeather w_fallback paris None init_agg") auto

lemma w_fallback_first:
  "netCalls (snd (getCurrentWeather w_fallback paris None init_agg))
     = [WA_Current (ByCity ''Paris'' None), OW_Current (ByCity ''Paris'' None) Metric]"
  using getCurrentWeather_wa_failed(2) [OF w_fallback_eval(3,1,4)]
  by (simp add: w_fallback_def world_of_def cfg_keys_def init_agg_def
        wa_getCurrent_def resolveQuery_def paris_def failing_upstream_def up_ow_def
        ow_getCurrent_def resolveQueryParams_def units_or_default_def unitsParam_def ow_20_def
        js_time_valid_def)

theorem second_call_from_cache_witness:
  "\<not> isl (fst (getCurrentWeather w_fallback paris None init_agg))
   \<and> fst (getCurrentWeather (w_fallback\<lparr>w_now := 600000\<rparr>) paris None
            (snd (getCurrentWeather w_fallback paris None init_agg)))
       = fst (getCurrentWeather w_fallback paris None init_agg)
   \<and> netCalls (snd (getCurrentWeather (w_fallback\<lparr>w_now := 600000\<rparr>) paris None
            (snd (getCurrentWeather w_fallback paris None init_agg))))
       = netCalls (snd (getCurrentWeather w_fallback paris None init_agg))"
proof -
  from w_fallback_success obtain d s1 where
    f: "getCurrentWeather w_fallback paris None init_agg = (Inr d, s1)"
    by blast
  have c: "w_config (w_fallback\<lparr>w_now := 600000\<rparr>) = w_config w_fallback" by simp
  from getCurrentWeather_stores [OF f] w_fallback_eval(3)
  have e: "map_of (currentCache s1)
             (keyOf ''current'' paris (ExtraUnits (units_or_default (w_config w_fallback) None)))
           = Some (d, w_now w_fallback)"
    by auto
  have ttl: "\<forall>t. map_of (currentCache s1)
                 (keyOf ''current'' paris (ExtraUnits (units_or_default (w_config w_fallback) None)))
                 = Some (d, t)
               \<longrightarrow> w_now (w_fallback\<lparr>w_now := 600000\<rparr>) - t
                    \<le> cacheTtlSeconds (w_config w_fallback) * 1000"
    by (simp add: e) (simp add: w_fallback_def world_of_def cfg_keys_def)
  from second_call_from_cache [OF f c ttl] f show ?thesis by simp
qed

text \<open>
  C4 as stated fails in its count: when WeatherAPI fails at the network and OpenWeather
  answers, the first call alone sends two requests.
\<close>

theorem two_upstream_calls_counterexample:
  "length (netCalls (snd (getCurrentWeather w_fallback paris None
             (snd (getCurrentWeather w_fallback paris None init_agg))))) = 2"
proof -
  from w_fallback_success obtain d s1 where
    f: "getCurrentWeather w_fallback paris None init_agg = (Inr d, s1)"
    by blast
  from getCurrentWeather_stores [OF f] w_fallback_eval(3)
  have e: "map_of (currentCache s1)
             (keyOf ''current'' paris (ExtraUnits (units_or_default (w_config w_fallback) None)))
           = Some (d, w_now w_fallback)"
    by auto
  have "0 \<le> cacheTtlSeconds (w_config w_fallback) * 1000"
    by (simp add: w_fallback_def world_of_def cfg_keys_def)
  with lru_get_live [OF e, of "w_now w_fallback" "cacheTtlSeconds (w_config w_fallback) * 1000"]
  have "\<not> current_miss w_fallback paris None s1" by (simp add: current_miss_def)
  from getCurrentWeather_hit_calls(1) [OF this] f w_fallback_first show ?thesis by simp
qed

subsection \<open>Forecast buckets\<close>

lemma same_day_snoc:
  "same_day k (pre @ [item]) = (if slot_date item = k then same_day k pre @ [item] else same_day k pre)"
  by (simp add: same_day_def)

lemma same_day_empty: "k \<notin> set (map slot_date pre) \<Longrightarrow> same_day k pre = []"
  by (induction pre) (auto simp: same_day_def)

lemma same_day_nonempty: "k \<in> set (map slot_date pre) \<Longrightarrow> same_day k pre \<noteq> []"
  by (induction pre) (auto simp: same_day_def)

lemma upsert_new:
  "map_of bd k = None \<Longrightarrow> upsert k f bd = bd @ [(k, f empty_bucket)]"
  by (simp add: upsert_def)

lemma upsert_old:
  "map_of bd k = Some b \<Longrightarrow>
   upsert k f bd = map (\<lambda>(k', b). if k' = k then (k', f b) else (k', b)) bd"
  by (simp add: upsert_def)

lemma upsert_keys_old:
  "map fst (map (\<lambda>(k', b). if k' = k then (k', f b) else (k', b)) bd) = map fst bd"
  by (induction bd) auto

lemma bucketed_step:
  assumes "bucketed u pre bd"
  shows "bucketed u (pre @ [item]) (upsert (slot_date item) (add_slot u item) bd)"
proof (cases "map_of bd (slot_date item)")
  case None
  then have notin: "slot_date item \<notin> set (map fst bd)"
    by (simp add: map_of_eq_None_iff)
  then have e: "same_day (slot_date item) pre = []"
    using assms same_day_empty by (simp add: bucketed_def)
  have other: "\<And>k b. (k, b) \<in> set bd \<Longrightarrow> slot_date item \<noteq> k"
    using notin by force
  show ?thesis
    unfolding upsert_new [OF None] bucketed_def
  proof (intro conjI)
    show "distinct (map fst (bd @ [(slot_date item, add_slot u item empty_bucket)]))"
      using assms notin by (simp add: bucketed_def)
    show "set (map fst (bd @ [(slot_date item, add_slot u item empty_bucket)]))
          = set (map slot_date (pre @ [item]))"
      using assms by (auto simp: bucketed_def)
    show "\<forall>(k, b) \<in> set (bd @ [(slot_date item, add_slot u item empty_bucket)]).
            tempsC b = map (slot_tempC u) (same_day k (pre @ [item]))
            \<and> tempsF b = map (slot_tempF u) (same_day k (pre @ [item]))
            \<and> totalSlots b = length (same_day k (pre @ [item]))
            \<and> rainSlots b = length (filter slot_rain (same_day k (pre @ [item])))
            \<and> snowSlots b = length (filter slot_snow (same_day k (pre @ [item])))"
    proof (clarify)
      fix k b assume kb: "(k, b) \<in> set (bd @ [(slot_date item, add_slot u item empty_bucket)])"
      show "tempsC b = map (slot_tempC u) (same_day k (pre @ [item]))
            \<and> tempsF b = map (slot_tempF u) (same_day k (pre @ [item]))
            \<and> totalSlots b = length (same_day k (pre @ [item]))
            \<and> rainSlots b = length (filter slot_rain (same_day k (pre @ [item])))
            \<and> snowSlots b = length (filter slot_snow (same_day k (pre @ [item])))"
      proof (cases "(k, b) \<in> set bd")
        case True
        with other have "slot_date item \<noteq> k" by blast
        with True assms show ?thesis by (auto simp: bucketed_def same_day_snoc)
      next
        case False
        with kb have "k = slot_date item" "b = add_slot u item empty_bucket" by auto
        then show ?thesis by (simp add: same_day_snoc e add_slot_def empty_bucket_def Let_def)
      qed
    qed
  qed
next
  case (Some b0)
  show ?thesis
    unfolding upsert_old [OF Some] bucketed_def
  proof (intro conjI)
    show "distinct (map fst (map (\<lambda>(k', b). if k' = slot_date item then (k', add_slot u item b)
                                   else (k', b)) bd))"
      unfolding upsert_keys_old using assms by (simp add: bucketed_def)
    have "slot_date item \<in> set (map fst bd)"
      using Some by (metis map_of_eq_None_iff option.distinct(1) set_map)
    then show "set (map fst (map (\<lambda>(k', b). if k' = slot_date item then (k', add_slot u item b)
                                   else (k', b)) bd)) = set (map slot_date (pre @ [item]))"
      unfolding upsert_keys_old using assms by (auto simp: bucketed_def)
    show "\<forall>(k, b) \<in> set (map (\<lambda>(k', b). if k' = slot_date item then (k', add_slot u item b)
                                   else (k', b)) bd).
            tempsC b = map (slot_tempC u) (same_day k (pre @ [item]))
            \<and> tempsF b = map (slot_tempF u) (same_day k (pre @ [item]))
            \<and> totalSlots b = length (same_day k (pre @ [item]))
            \<and> rainSlots b = length (filter slot_rain (same_day k (pre @ [item])))
            \<and> snowSlots b = length (filter slot_snow (same_day k (pre @ [item])))"
    proof (clarify)
      fix k b
      assume "(k, b) \<in> set (map (\<lambda>(k', b). if k' = slot_date item then (k', add_slot u item b)
                                   else (k', b)) bd)"
      then obtain k' b' where m: "(k', b') \<in> set bd"
        "(k, b) = (if k' = slot_date item then (k', add_slot u item b') else (k', b'))"
        by auto
      from m(1) assms have inv:
        "tempsC b' = map (slot_tempC u) (same_day k' pre)"
        "tempsF b' = map (slot_tempF u) (same_day k' pre)"
        "totalSlots b' = length (same_day k' pre)"
        "rainSlots b' = length (filter slot_rain (same_day k' pre))"
        "snowSlots b' = length (filter slot_snow (same_day k' pre))"
        by (auto simp: bucketed_def)
      show "tempsC b = map (slot_tempC u) (same_day k (pre @ [item]))
            \<and> tempsF b = map (slot_tempF u) (same_day k (pre @ [item]))
            \<and> totalSlots b = length (same_day k (pre @ [item]))
            \<and> rainSlots b = length (filter slot_rain (same_day k (pre @ [item])))
            \<and> snowSlots b = length (filter slot_snow (same_day k (pre @ [item])))"
      proof (cases "k' = slot_date item")
        case True
        with m(2) have "k = slot_date item" "b = add_slot u item b'" by simp_all
        then show ?thesis
          using True inv by (simp add: same_day_snoc add_slot_def Let_def)
      next
        case False
        with m(2) have "k = k'" "b = b'" by simp_all
        then show ?thesis
          using False inv by (simp add: same_day_snoc)
      qed
    qed
  qed
qed

lemma bucket_slots_bucketed:
  assumes "\<forall>item \<in> set items. js_time_valid (dt item * 1000)" "bucketed u pre bd"
  shows "\<exists>bd'. bucket_slots u items bd = Inr bd' \<and> bucketed u (pre @ items) bd'"
  using assms
proof (induction items arbitrary: pre bd)
  case Nil
  then show ?case by simp
next
  case (Cons item items)
  from bucketed_step [OF Cons.prems(2), of item]
  have "bucketed u (pre @ [item]) (upsert (slot_date item) (add_slot u item) bd)" .
  from Cons.IH [OF _ this] Cons.prems(1) show ?case
    by (simp add: slot_date_def)
qed

lemma bucket_slots_invalid:
  assumes "\<exists>item \<in> set items. \<not> js_time_valid (dt item * 1000)"
  shows "bucket_slots u items bd = Inl (Error ''Invalid time value'')"
  using assms by (induction items arbitrary: bd) auto

lemma bucketed_empty: "bucketed u [] []"
  by (simp add: bucketed_def)

lemma js_mean_nonempty: "xs \<noteq> [] \<Longrightarrow> js_mean xs = Some (spec_mean xs)"
  by (simp add: js_mean_def spec_mean_def)

lemma js_max_nonempty:
  assumes "xs \<noteq> []"
  shows "js_max xs = Some (Max (set xs))"
proof (cases xs)
  case Nil
  with assms show ?thesis by simp
next
  case (Cons a list)
  have "Max (set (a # list)) = fold max list a" by (rule Max.set_eq_fold)
  with Cons show ?thesis by (simp del: set_simps)
qed

lemma js_min_nonempty:
  assumes "xs \<noteq> []"
  shows "js_min xs = Some (Min (set xs))"
proof (cases xs)
  case Nil
  with assms show ?thesis by simp
next
  case (Cons a list)
  have "Min (set (a # list)) = fold min list a" by (rule Min.set_eq_fold)
  with Cons show ?thesis by (simp del: set_simps)
qed

lemma slot_pct_nonzero: "n \<noteq> 0 \<Longrightarrow> slot_pct k n = Some (spec_pct k n)"
  by (simp add: slot_pct_def spec_pct_def)

lemma mk_day_summarises:
  assumes "S \<noteq> []"
      and "tempsC b = map (slot_tempC u) S" "tempsF b = map (slot_tempF u) S"
      and "totalSlots b = length S"
      and "rainSlots b = length (filter slot_rain S)"
      and "snowSlots b = length (filter slot_snow S)"
  shows "summarises u S (mk_day k b)"
  using assms
  by (simp add: summarises_def mk_day_def js_mean_nonempty js_max_nonempty js_min_nonempty
        slot_pct_nonzero)

lemma daysOut_all:
  assumes "set ds \<subseteq> set (map fst bd)" "distinct (map fst bd)"
  shows "\<exists>out. daysOut bd ds = Inr out \<and> map fd_date out = ds
          \<and> (\<forall>day \<in> set out. \<exists>b. (fd_date day, b) \<in> set bd \<and> day = mk_day (fd_date day) b)"
  using assms(1)
proof (induction ds)
  case Nil
  then show ?case by simp
next
  case (Cons k ds)
  then have "k \<in> set (map fst bd)" by simp
  then obtain b where b: "map_of bd k = Some b"
    by (metis map_of_eq_None_iff not_Some_eq set_map)
  then have mem: "(k, b) \<in> set bd" by (rule map_of_SomeD)
  from Cons obtain out where out: "daysOut bd ds = Inr out" "map fd_date out = ds"
    "\<forall>day \<in> set out. \<exists>b. (fd_date day, b) \<in> set bd \<and> day = mk_day (fd_date day) b"
    by auto
  have d: "fd_date (mk_day k b) = k" by (simp add: mk_day_def)
  show ?case
    using b out mem d by auto
qed

lemma slice0_nonneg: "0 \<le> n \<Longrightarrow> slice0 n xs = take (nat n) xs"
  by (simp add: slice0_def)

lemma sort_distinct_keys:
  "distinct xs \<Longrightarrow> sort xs = sorted_list_of_set (set xs)"
  by (simp add: sorted_list_of_set_sort_remdups distinct_remdups_id)

lemma forecast_days_summary:
  assumes "\<forall>item \<in> set items. js_time_valid (dt item * 1000)" "0 \<le> n"
  shows "\<exists>ds. forecast_days u n items = Inr ds
          \<and> map fd_date ds = take (nat n) (sorted_list_of_set (set (map slot_date items)))
          \<and> (\<forall>day \<in> set ds. same_day (fd_date day) items \<noteq> []
                \<and> summarises u (same_day (fd_date day) items) day)"
proof -
  from bucket_slots_bucketed [OF assms(1) bucketed_empty, of u] obtain bd where
    bd: "bucket_slots u items [] = Inr bd" "bucketed u items bd"
    by auto
  from bd(2) have dist: "distinct (map fst bd)"
    and keys: "set (map fst bd) = set (map slot_date items)"
    by (simp_all add: bucketed_def)
  let ?ks = "slice0 n (sort (map fst bd))"
  have ks: "?ks = take (nat n) (sorted_list_of_set (set (map slot_date items)))"
    using keys by (simp add: slice0_nonneg [OF assms(2)] sort_distinct_keys [OF dist])
  have sub: "set ?ks \<subseteq> set (map fst bd)"
    unfolding slice0_nonneg [OF assms(2)] using set_take_subset [of "nat n" "sort (map fst bd)"]
    by simp
  from daysOut_all [OF sub dist] obtain out where out: "daysOut bd ?ks = Inr out"
    "map fd_date out = ?ks"
    "\<forall>day \<in> set out. \<exists>b. (fd_date day, b) \<in> set bd \<and> day = mk_day (fd_date day) b"
    by blast
  have fd: "forecast_days u n items = Inr out"
    by (simp add: forecast_days_def bd(1) out(1))
  have each: "\<forall>day \<in> set out. same_day (fd_date day) items \<noteq> []
                \<and> summarises u (same_day (fd_date day) items) day"
  proof
    fix day assume "day \<in> set out"
    with out(3) obtain b where b: "(fd_date day, b) \<in> set bd" "day = mk_day (fd_date day) b"
      by blast
    from b(1) have "fd_date day \<in> set (map fst bd)" by force
    then have ne: "same_day (fd_date day) items \<noteq> []"
      using keys same_day_nonempty by simp
    from b(1) bd(2) have
      "tempsC b = map (slot_tempC u) (same_day (fd_date day) items)"
      "tempsF b = map (slot_tempF u) (same_day (fd_date day) items)"
      "totalSlots b = length (same_day (fd_date day) items)"
      "rainSlots b = length (filter slot_rain (same_day (fd_date day) items))"
      "snowSlots b = length (filter slot_snow (same_day (fd_date day) items))"
      by (auto simp: bucketed_def)
    from mk_day_summarises [OF ne this, of "fd_date day"] b(2) ne
    show "same_day (fd_date day) items \<noteq> []
          \<and> summarises u (same_day (fd_date day) items) day"
      by simp
  qed
  from fd out(2) ks each show ?thesis by simp
qed

text \<open>Day numbers, years and the order of the dates as texts.\<close>

lemma div_bounds:
  fixes x :: int
  assumes "0 < k"
  shows "k * (x div k) \<le> x" and "x < k * (x div k) + k"
  using mult_div_mod_eq [of k x] pos_mod_sign [OF assms, of x] pos_mod_bound [OF assms, of x]
  by linarith+

lemma step_div:
  assumes "0 < k"
  shows "((x::int) + 1) div k = x div k + (if (x + 1) mod k = 0 then 1 else 0)"
proof -
  define q r where "q = x div k" and "r = x mod k"
  have x: "x = k * q + r" and r: "0 \<le> r" "r < k"
    using assms by (simp_all add: q_def r_def)
  show ?thesis
  proof (cases "r + 1 = k")
    case True
    have e: "x + 1 = k * (q + 1) + 0" using x True by (simp add: algebra_simps)
    have "(x + 1) div k = q + 1" by (rule int_div_pos_eq [OF e]) (use assms in simp_all)
    moreover have "(x + 1) mod k = 0" by (rule int_mod_pos_eq [OF e]) (use assms in simp_all)
    ultimately show ?thesis by (simp add: q_def)
  next
    case False
    with r have lt: "r + 1 < k" by simp
    have e: "x + 1 = k * q + (r + 1)" using x by simp
    have "(x + 1) div k = q" by (rule int_div_pos_eq [OF e]) (use r lt in simp_all)
    moreover have "(x + 1) mod k = r + 1" by (rule int_mod_pos_eq [OF e]) (use r lt in simp_all)
    ultimately show ?thesis using r by (simp add: q_def)
  qed
qed

lemma mod_shift: "((y::int) - k * c) mod k = y mod k"
proof -
  have "y - k * c = y + k * (- c)" by simp
  then show ?thesis by (simp only: mod_mult_self2)
qed

lemma dayFromYear_step:
  "dayFromYear (y + 1) = dayFromYear y + (if inLeapYear y then 366 else 365)"
proof -
  have a: "(y + 1 - 1969) div 4 = (y - 1969) div 4 + (if y mod 4 = 0 then 1 else 0)"
    using step_div [of 4 "y - 1969"] mod_shift [of y 4 492] by (simp add: algebra_simps)
  have b: "(y + 1 - 1901) div 100 = (y - 1901) div 100 + (if y mod 100 = 0 then 1 else 0)"
    using step_div [of 100 "y - 1901"] mod_shift [of y 100 19] by (simp add: algebra_simps)
  have c: "(y + 1 - 1601) div 400 = (y - 1601) div 400 + (if y mod 400 = 0 then 1 else 0)"
    using step_div [of 400 "y - 1601"] mod_shift [of y 400 4] by (simp add: algebra_simps)
  have d: "y mod 400 = 0 \<Longrightarrow> y mod 100 = 0" "y mod 100 = 0 \<Longrightarrow> y mod 4 = 0"
    by presburger+
  show ?thesis
    unfolding dayFromYear_def inLeapYear_def a b c using d by auto
qed

lemma dayFromYear_estimate:
  shows "146097 * (y - 1970) - 700 \<le> 400 * dayFromYear y"
    and "400 * dayFromYear y \<le> 146097 * (y - 1970) + 700"
proof -
  define a b c where "a = (y - 1969) div 4" and "b = (y - 1901) div 100"
    and "c = (y - 1601) div 400"
  have fa: "4 * a \<le> y - 1969" "y - 1969 < 4 * a + 4"
    unfolding a_def by (rule div_bounds, simp)+
  have fb: "100 * b \<le> y - 1901" "y - 1901 < 100 * b + 100"
    unfolding b_def by (rule div_bounds, simp)+
  have fc: "400 * c \<le> y - 1601" "y - 1601 < 400 * c + 400"
    unfolding c_def by (rule div_bounds, simp)+
  have d: "dayFromYear y = 365 * (y - 1970) + a - b + c"
    by (simp add: dayFromYear_def a_def b_def c_def)
  show "146097 * (y - 1970) - 700 \<le> 400 * dayFromYear y"
    unfolding d using fa fb fc by simp
  show "400 * dayFromYear y \<le> 146097 * (y - 1970) + 700"
    unfolding d using fa fb fc by simp
qed

lemma yearFromDay_correct:
  shows "dayFromYear (yearFromDay day) \<le> day"
    and "day < dayFromYear (yearFromDay day + 1)"
proof -
  define n where "n = (day * 400) div 146097"
  define c where "c = 1970 + n"
  have n: "146097 * n \<le> day * 400" "day * 400 < 146097 * n + 146097"
    unfolding n_def by (rule div_bounds, simp)+
  have lo: "dayFromYear (c - 1) \<le> day"
    using dayFromYear_estimate(2) [of "c - 1"] n unfolding c_def by simp
  have hi: "day < dayFromYear (c + 2)"
    using dayFromYear_estimate(1) [of "c + 2"] n unfolding c_def by simp
  have y: "yearFromDay day =
             (if dayFromYear (c + 1) \<le> day then c + 1
              else if dayFromYear c \<le> day then c else c - 1)"
    by (simp add: yearFromDay_def c_def n_def Let_def)
  show "dayFromYear (yearFromDay day) \<le> day"
    using lo unfolding y by auto
  show "day < dayFromYear (yearFromDay day + 1)"
    using hi unfolding y by (auto simp: add.assoc)
qed

lemma dayFromYear_less_Suc: "dayFromYear y < dayFromYear (y + 1)"
  by (simp add: dayFromYear_step)

lemma dayFromYear_strict_mono:
  assumes "y < y'"
  shows "dayFromYear y < dayFromYear y'"
proof -
  have "dayFromYear y < dayFromYear (y + 1 + int k)" for k
  proof (induction k)
    case 0
    show ?case using dayFromYear_less_Suc [of y] by simp
  next
    case (Suc k)
    have e: "y + 1 + int (Suc k) = (y + 1 + int k) + 1" by simp
    show ?case
      unfolding e using Suc dayFromYear_less_Suc [of "y + 1 + int k"] by (rule less_trans)
  qed
  from this [of "nat (y' - y - 1)"] assms show ?thesis by simp
qed

lemma dayFromYear_mono: "y \<le> y' \<Longrightarrow> dayFromYear y \<le> dayFromYear y'"
  using dayFromYear_strict_mono [of y y'] by (cases "y = y'") auto

lemma yearFromDay_mono:
  assumes "a \<le> b"
  shows "yearFromDay a \<le> yearFromDay b"
proof (rule ccontr)
  assume "\<not> yearFromDay a \<le> yearFromDay b"
  then have "yearFromDay b + 1 \<le> yearFromDay a" by simp
  then have "dayFromYear (yearFromDay b + 1) \<le> dayFromYear (yearFromDay a)"
    by (rule dayFromYear_mono)
  with yearFromDay_correct(1) [of a] yearFromDay_correct(2) [of b] assms show False by simp
qed

lemma yearFromDay_range:
  assumes "dayFromYear lo \<le> day" "day < dayFromYear hi"
  shows "lo \<le> yearFromDay day \<and> yearFromDay day < hi"
proof -
  have "lo \<le> yearFromDay day"
  proof (rule ccontr)
    assume "\<not> lo \<le> yearFromDay day"
    then have "yearFromDay day + 1 \<le> lo" by simp
    from dayFromYear_mono [OF this] yearFromDay_correct(2) [of day] assms(1) show False by simp
  qed
  moreover have "yearFromDay day < hi"
  proof (rule ccontr)
    assume "\<not> yearFromDay day < hi"
    then have "hi \<le> yearFromDay day" by simp
    from dayFromYear_mono [OF this] yearFromDay_correct(1) [of day] assms(2) show False by simp
  qed
  ultimately show ?thesis by simp
qed

text \<open>Digits and padded numbers in the order of strings.\<close>

lemma digit_char_code:
  assumes "0 \<le> n" "n < 10"
  shows "(of_char (digit_char n) :: nat) = 48 + nat n"
proof -
  from assms have "n \<in> {0, 1, 2, 3, 4, 5, 6, 7, 8, 9}" by simp arith
  then show ?thesis by (auto simp: digit_char_def)
qed

lemma digit_char_less:
  assumes "0 \<le> a" "a < b" "b < 10"
  shows "digit_char a < digit_char b"
  using digit_char_code [of a] digit_char_code [of b] assms
  by (simp add: less_char_def)

lemma digit_char_mod: "digit_char n = digit_char (n mod 10)"
  by (simp add: digit_char_def)

lemma length_pad_num [simp]: "length (pad_num w n) = w"
  by (induction w arbitrary: n) simp_all

lemma append_less_same_length:
  assumes "length xs = length ys"
  shows "(xs @ r < ys @ s) = (xs < ys \<or> xs = ys \<and> r < s)"
  using assms by (induction xs ys rule: list_induct2) auto

lemma less_same_length_append:
  assumes "length xs = length ys" "xs < ys"
  shows "xs @ r < ys @ s"
  using assms by (simp add: append_less_same_length)

lemma pad_num_less:
  assumes "0 \<le> a" "a < b" "b < 10 ^ w"
  shows "pad_num w a < pad_num w b"
  using assms
proof (induction w arbitrary: a b)
  case 0
  then show ?case by simp
next
  case (Suc w)
  have le: "a div 10 \<le> b div 10" using Suc.prems(2) by (simp add: zdiv_mono1)
  show ?case
  proof (cases "a div 10 = b div 10")
    case True
    have "a mod 10 < b mod 10"
      using Suc.prems(2) True mult_div_mod_eq [of 10 a] mult_div_mod_eq [of 10 b] by linarith
    then have "digit_char (a mod 10) < digit_char (b mod 10)"
      by (intro digit_char_less) simp_all
    then have "digit_char a < digit_char b"
      using digit_char_mod [of a] digit_char_mod [of b] by simp
    then show ?thesis
      by (simp add: True append_less_same_length)
  next
    case False
    with le have lt: "a div 10 < b div 10" by simp
    have "0 \<le> a div 10" using Suc.prems(1) by simp
    moreover have "b div 10 < 10 ^ w" using Suc.prems(3) by simp
    ultimately have "pad_num w (a div 10) < pad_num w (b div 10)"
      using Suc.IH lt by blast
    then show ?thesis
      by (simp add: append_less_same_length)
  qed
qed

lemma month_range:
  assumes "0 \<le> dw"
  shows "0 \<le> monthFromDay l dw \<and> monthFromDay l dw \<le> 11"
  by (simp add: monthFromDay_def)

lemma date_range:
  assumes "l = 0 \<or> l = 1" "0 \<le> dw" "dw < 365 + l"
  shows "1 \<le> dateFromDay l dw \<and> dateFromDay l dw \<le> 31"
  using assms by (auto simp: dateFromDay_def monthFromDay_def Let_def)

lemma month_mono: "a \<le> b \<Longrightarrow> monthFromDay l a \<le> monthFromDay l b"
  by (simp add: monthFromDay_def)

lemma date_mono_same_month:
  assumes "a < b" "monthFromDay l a = monthFromDay l b"
  shows "dateFromDay l a < dateFromDay l b"
  using assms by (simp add: dateFromDay_def Let_def)

lemma ymd_less:
  assumes "length Y1 = length Y2" "length M1 = length M2"
      and "Y1 < Y2 \<or> (Y1 = Y2 \<and> (M1 < M2 \<or> (M1 = M2 \<and> D1 < D2)))"
  shows "Y1 @ ''-'' @ M1 @ ''-'' @ D1 < Y2 @ ''-'' @ M2 @ ''-'' @ D2"
  using assms by (auto simp: append_less_same_length)

lemma day_text_four_digits:
  assumes "dayFromYear 0 \<le> day" "day < dayFromYear 10000"
  shows "day_text day =
           pad_num 4 (yearFromDay day) @ ''-''
           @ pad_num 2 (monthFromDay (if inLeapYear (yearFromDay day) then 1 else 0)
                          (day - dayFromYear (yearFromDay day)) + 1)
           @ ''-''
           @ pad_num 2 (dateFromDay (if inLeapYear (yearFromDay day) then 1 else 0)
                          (day - dayFromYear (yearFromDay day)))"
proof -
  from yearFromDay_range [OF assms] have "0 \<le> yearFromDay day \<and> yearFromDay day \<le> 9999"
    by simp
  then show ?thesis by (simp add: day_text_def year_str_def Let_def)
qed

lemma day_text_mono:
  assumes "dayFromYear 0 \<le> a" "a < b" "b < dayFromYear 10000"
  shows "day_text a < day_text b"
proof -
  let ?ya = "yearFromDay a" and ?yb = "yearFromDay b"
  have ra: "0 \<le> ?ya \<and> ?ya < 10000"
    using yearFromDay_range [of 0 a 10000] assms by simp
  have rb: "0 \<le> ?yb \<and> ?yb < 10000"
    using yearFromDay_range [of 0 b 10000] assms by simp
  have ta: "day_text a = pad_num 4 ?ya @ ''-''
           @ pad_num 2 (monthFromDay (if inLeapYear ?ya then 1 else 0) (a - dayFromYear ?ya) + 1)
           @ ''-''
           @ pad_num 2 (dateFromDay (if inLeapYear ?ya then 1 else 0) (a - dayFromYear ?ya))"
    using assms by (intro day_text_four_digits) simp_all
  have tb: "day_text b = pad_num 4 ?yb @ ''-''
           @ pad_num 2 (monthFromDay (if inLeapYear ?yb then 1 else 0) (b - dayFromYear ?yb) + 1)
           @ ''-''
           @ pad_num 2 (dateFromDay (if inLeapYear ?yb then 1 else 0) (b - dayFromYear ?yb))"
    using assms by (intro day_text_four_digits) simp_all
  have le: "?ya \<le> ?yb" using assms(2) by (intro yearFromDay_mono) simp
  show ?thesis
  proof (cases "?ya = ?yb")
    case False
    with le have "?ya < ?yb" by simp
    then have "pad_num 4 ?ya < pad_num 4 ?yb"
      using ra rb by (intro pad_num_less) simp_all
    then show ?thesis unfolding ta tb by (intro ymd_less) simp_all
  next
    case True
    define l :: int where "l = (if inLeapYear ?yb then 1 else 0)"
    define da db where "da = a - dayFromYear ?yb" and "db = b - dayFromYear ?yb"
    have l: "l = 0 \<or> l = 1" by (simp add: l_def)
    have d0: "0 \<le> da" using yearFromDay_correct(1) [of a] True by (simp add: da_def)
    have dlt: "da < db" using assms(2) by (simp add: da_def db_def)
    have dhi: "db < 365 + l"
      using yearFromDay_correct(2) [of b] dayFromYear_step [of ?yb]
      by (cases "inLeapYear ?yb") (simp_all add: db_def l_def)
    have mr: "0 \<le> monthFromDay l da" "monthFromDay l db \<le> 11"
      using month_range [of da l] month_range [of db l] d0 dlt by simp_all
    have dr: "1 \<le> dateFromDay l da" "dateFromDay l db \<le> 31"
      using date_range [of l da] date_range [of l db] l d0 dlt dhi by simp_all
    have ml: "monthFromDay l da \<le> monthFromDay l db"
      using dlt by (intro month_mono) simp
    have "pad_num 2 (monthFromDay l da + 1) < pad_num 2 (monthFromDay l db + 1)
          \<or> (pad_num 2 (monthFromDay l da + 1) = pad_num 2 (monthFromDay l db + 1)
              \<and> pad_num 2 (dateFromDay l da) < pad_num 2 (dateFromDay l db))"
    proof (cases "monthFromDay l da = monthFromDay l db")
      case False
      with ml have "monthFromDay l da + 1 < monthFromDay l db + 1" by simp
      then have "pad_num 2 (monthFromDay l da + 1) < pad_num 2 (monthFromDay l db + 1)"
        using mr by (intro pad_num_less) simp_all
      then show ?thesis by simp
    next
      case same: True
      from date_mono_same_month [OF dlt same]
      have "pad_num 2 (dateFromDay l da) < pad_num 2 (dateFromDay l db)"
        using dr by (intro pad_num_less) simp_all
      with same show ?thesis by simp
    qed
    then show ?thesis
      unfolding ta tb True l_def [symmetric] da_def [symmetric] db_def [symmetric]
      by (intro ymd_less) simp_all
  qed
qed

lemma day_text_inj:
  assumes "dayFromYear 0 \<le> a" "a < dayFromYear 10000" "dayFromYear 0 \<le> b" "b < dayFromYear 10000"
  shows "(day_text a = day_text b) = (a = b)"
  using day_text_mono [of a b] day_text_mono [of b a] assms
  by (cases a b rule: linorder_cases) auto

lemma dayFromYear_bounds: "dayFromYear 0 = - 719528" "dayFromYear 10000 = 2932897"
  by (simp_all add: dayFromYear_def)

text \<open>A strictly increasing function of a finite set of days keeps their sorted order.\<close>

lemma sorted_list_of_set_image_mono:
  fixes f :: "int \<Rightarrow> string"
  assumes "finite K" "\<And>a b. a \<in> K \<Longrightarrow> b \<in> K \<Longrightarrow> a < b \<Longrightarrow> f a < f b"
  shows "sorted_list_of_set (f ` K) = map f (sorted_list_of_set K)"
proof -
  let ?xs = "sorted_list_of_set K"
  have "sorted_wrt (<) ?xs" using assms(1) by (simp add: strict_sorted_iff)
  then have "sorted_wrt (\<lambda>a b. f a < f b) ?xs"
    by (rule sorted_wrt_mono_rel [rotated]) (use assms in simp)
  then have st: "sorted_wrt (<) (map f ?xs)" by (simp add: sorted_wrt_map)
  then have "sorted (map f ?xs)" "distinct (map f ?xs)" by (simp_all add: strict_sorted_iff)
  moreover have "set (map f ?xs) = f ` K" using assms(1) by simp
  moreover have "sorted (sorted_list_of_set (f ` K))" "distinct (sorted_list_of_set (f ` K))"
    "set (sorted_list_of_set (f ` K)) = f ` K"
    using assms(1) by simp_all
  ultimately show ?thesis by (intro sorted_distinct_set_unique) simp_all
qed

lemma four_digit_year_day:
  assumes "four_digit_year t"
  shows "dayFromYear 0 \<le> t div 86400" "t div 86400 < dayFromYear 10000"
proof -
  from assms have lo: "- 62167219200 \<le> t" and hi: "t \<le> 253402300799"
    by (simp_all add: four_digit_year_def)
  have pos: "(0::int) < 86400" by simp
  from zdiv_mono1 [OF lo pos] show "dayFromYear 0 \<le> t div 86400"
    by (simp add: dayFromYear_bounds)
  from zdiv_mono1 [OF hi pos] show "t div 86400 < dayFromYear 10000"
    by (simp add: dayFromYear_bounds)
qed

lemma four_digit_year_valid:
  assumes "four_digit_year t"
  shows "js_time_valid (t * 1000)"
proof -
  from assms have "- 62167219200 \<le> t" "t \<le> 253402300800" by (simp_all add: four_digit_year_def)
  then have "- 8640000000000000 \<le> t * 1000" "t * 1000 \<le> 8640000000000000" by simp_all
  then show ?thesis unfolding js_time_valid_def by (simp only: abs_le_iff) simp
qed

lemma ms_day: "(x::int) * 1000 div 86400000 = x div 86400"
proof -
  have nz: "(1000::int) \<noteq> 0" by simp
  have "x * 1000 div (86400 * 1000) = x div 86400" by (rule div_mult_mult2 [OF nz])
  then show ?thesis by simp
qed

lemma slot_date_day_text: "slot_date item = day_text (utc_day item)"
  unfolding slot_date_def toISODate_def utc_day_def ms_day by (rule refl)

lemma slot_date_order:
  assumes "four_digit_year (dt a)" "four_digit_year (dt b)"
  shows "(slot_date a = slot_date b) = (utc_day a = utc_day b)"
    and "(slot_date a < slot_date b) = (utc_day a < utc_day b)"
proof -
  note ra = four_digit_year_day [OF assms(1), folded utc_day_def]
  note rb = four_digit_year_day [OF assms(2), folded utc_day_def]
  show "(slot_date a = slot_date b) = (utc_day a = utc_day b)"
    unfolding slot_date_day_text by (rule day_text_inj [OF ra rb])
  show "(slot_date a < slot_date b) = (utc_day a < utc_day b)"
  proof (cases "utc_day a" "utc_day b" rule: linorder_cases)
    case less
    from day_text_mono [OF ra(1) less rb(2)] less show ?thesis
      by (simp add: slot_date_day_text)
  next
    case equal
    then show ?thesis by (simp add: slot_date_day_text)
  next
    case greater
    from day_text_mono [OF rb(1) greater ra(2)] have "\<not> day_text (utc_day a) < day_text (utc_day b)"
      by (rule less_not_sym)
    with greater show ?thesis by (simp add: slot_date_day_text)
  qed
qed

text \<open>
  C2. When the query resolves, the upstream answers with a list of slots whose times lie
  in the years 0000 to 9999, and the day count \<open>n\<close> is not negative, the OpenWeather
  \<open>getForecast\<close> returns a forecast with one day for each of the first \<open>n\<close> UTC days, in
  chronological order, on which at least one slot falls, and no other day: the dates are
  the texts of these days, ascending and without repetition, and the day for the UTC day
  \<open>k\<close> reports the mean, the maximum and the minimum of the temperatures of the slots on
  \<open>k\<close>, in both units, and the rounded percentage of these slots that carry rain, and snow,
  all in double arithmetic. Two slots have the same date exactly when they fall on the same
  UTC day, and the dates are ordered as the days are.
\<close>

theorem forecast_buckets_by_date:
  assumes "resolveQueryParams q = Inr p"
      and "ow_forecast_api up p (unitsParam u) = Inr d"
      and "\<forall>item \<in> set (of_list d). four_digit_year (dt item)"
      and "0 \<le> n"
  shows "\<exists>fc. ow_getForecast ns up q u n = (Inr fc, [OW_Forecast p (unitsParam u)])
          \<and> map fd_date (days fc)
              = map day_text (take (nat n) (sorted_list_of_set (utc_day ` set (of_list d))))
          \<and> list_all2 (\<lambda>day k. summarises u (on_day k (of_list d)) day) (days fc)
                (take (nat n) (sorted_list_of_set (utc_day ` set (of_list d))))
          \<and> length (days fc) = min (nat n) (card (utc_day ` set (of_list d)))
          \<and> sorted (map fd_date (days fc)) \<and> distinct (map fd_date (days fc))
          \<and> (\<forall>a \<in> set (of_list d). \<forall>b \<in> set (of_list d).
                (slot_date a = slot_date b) = (utc_day a = utc_day b)
                \<and> (slot_date a < slot_date b) = (utc_day a < utc_day b))"
proof -
  let ?items = "of_list d"
  let ?K = "utc_day ` set ?items"
  let ?ks = "take (nat n) (sorted_list_of_set ?K)"
  have valid: "\<forall>item \<in> set ?items. js_time_valid (dt item * 1000)"
    using assms(3) four_digit_year_valid by blast
  from forecast_days_summary [OF valid assms(4), of u] obtain ds where
    ds: "forecast_days u n ?items = Inr ds"
    "map fd_date ds = take (nat n) (sorted_list_of_set (set (map slot_date ?items)))"
    "\<forall>day \<in> set ds. same_day (fd_date day) ?items \<noteq> []
        \<and> summarises u (same_day (fd_date day) ?items) day"
    by blast
  have ord: "\<forall>a \<in> set ?items. \<forall>b \<in> set ?items.
                (slot_date a = slot_date b) = (utc_day a = utc_day b)
                \<and> (slot_date a < slot_date b) = (utc_day a < utc_day b)"
    using assms(3) slot_date_order by blast
  have feq: "slot_date = (\<lambda>item. day_text (utc_day item))"
    by (rule ext) (rule slot_date_day_text)
  have img: "set (map slot_date ?items) = day_text ` ?K"
    by (simp add: feq image_image)
  have mono: "day_text a < day_text b" if "a \<in> ?K" "b \<in> ?K" "a < b" for a b
  proof -
    from that obtain x y where xy: "x \<in> set ?items" "a = utc_day x" "y \<in> set ?items"
      "b = utc_day y"
      by blast
    from ord xy(1,3) have "(slot_date x < slot_date y) = (utc_day x < utc_day y)" by blast
    with that(3) xy(2,4) show ?thesis by (simp add: slot_date_day_text)
  qed
  have fin: "finite ?K" by simp
  have keys: "sorted_list_of_set (set (map slot_date ?items))
              = map day_text (sorted_list_of_set ?K)"
    unfolding img using fin mono by (rule sorted_list_of_set_image_mono)
  have dates: "map fd_date ds = map day_text ?ks"
    unfolding ds(2) keys by (simp add: take_map)
  have len: "length ds = length ?ks" using arg_cong [OF dates, of length] by simp
  have card: "length ds = min (nat n) (card ?K)"
    unfolding len by simp
  have sub: "set ?ks \<subseteq> ?K"
    using set_take_subset [of "nat n" "sorted_list_of_set ?K"] by simp
  have each: "list_all2 (\<lambda>day k. summarises u (on_day k ?items) day) ds ?ks"
  proof (rule list_all2_all_nthI [OF len])
    fix i assume i: "i < length ds"
    have date: "fd_date (ds ! i) = day_text (?ks ! i)"
      using arg_cong [OF dates, of "\<lambda>xs. xs ! i"] i len by simp
    from i len have "?ks ! i \<in> set ?ks" by (intro nth_mem) simp
    with sub have "?ks ! i \<in> ?K" by blast
    then obtain x where x: "x \<in> set ?items" "?ks ! i = utc_day x" by blast
    have "same_day (fd_date (ds ! i)) ?items = on_day (?ks ! i) ?items"
      unfolding same_day_def on_day_def
    proof (rule filter_cong [OF refl])
      fix y assume "y \<in> set ?items"
      with ord x(1) have "(slot_date y = slot_date x) = (utc_day y = utc_day x)" by blast
      then show "(slot_date y = fd_date (ds ! i)) = (utc_day y = ?ks ! i)"
        unfolding date x(2) by (simp add: slot_date_day_text)
    qed
    moreover from ds(3) i have "summarises u (same_day (fd_date (ds ! i)) ?items) (ds ! i)"
      by simp
    ultimately show "summarises u (on_day (?ks ! i) ?items) (ds ! i)" by simp
  qed
  have s: "sorted (map fd_date ds)"
    unfolding ds(2) by (rule sorted_wrt_take) simp
  have di: "distinct (map fd_date ds)"
    unfolding ds(2) by (rule distinct_take) simp
  obtain fc where fc: "ow_getForecast ns up q u n = (Inr fc, [OW_Forecast p (unitsParam u)])"
    "days fc = ds"
    by (simp add: ow_getForecast_def assms(1,2) ds(1))
  show ?thesis
  proof (intro exI [of _ fc] conjI)
    show "ow_getForecast ns up q u n = (Inr fc, [OW_Forecast p (unitsParam u)])" by (rule fc(1))
    show "map fd_date (days fc) = map day_text ?ks" unfolding fc(2) by (rule dates)
    show "list_all2 (\<lambda>day k. summarises u (on_day k ?items) day) (days fc) ?ks"
      unfolding fc(2) by (rule each)
    show "length (days fc) = min (nat n) (card ?K)" unfolding fc(2) by (rule card)
    show "sorted (map fd_date (days fc))" unfolding fc(2) by (rule s)
    show "distinct (map fd_date (days fc))" unfolding fc(2) by (rule di)
    show "\<forall>a \<in> set ?items. \<forall>b \<in> set ?items.
                (slot_date a = slot_date b) = (utc_day a = utc_day b)
                \<and> (slot_date a < slot_date b) = (utc_day a < utc_day b)"
      by (rule ord)
  qed
qed

lemma example_days: "sorted_list_of_set (utc_day ` set example_slots) = [19723, 19724]"
proof -
  have "map utc_day example_slots = [19724, 19723, 19723, 19724, 19723, 19723]"
    by (simp add: example_slots_def slot_at_def utc_day_def)
  moreover have "sorted_list_of_set (set [19724, 19723, 19723, 19724, 19723, 19723 :: int])
                 = [19723, 19724]"
    by code_simp
  ultimately show ?thesis by (simp only: set_map [symmetric])
qed

lemma example_day_text: "day_text 19723 = ''2024-01-01''" "day_text 19724 = ''2024-01-02''"
  by code_simp+

lemma example_on_day:
  "on_day 19723 example_slots
   = [slot_at 1704067200 10 (Some 1.5), slot_at 1704078000 12 None,
      slot_at 1704088800 14 (Some 0.5), slot_at 1704099600 12 None]"
  "on_day 19724 example_slots = [slot_at 1704153600 8 None, slot_at 1704164400 6 None]"
  by (simp_all add: on_day_def utc_day_def example_slots_def slot_at_def)

lemma example_figures:
  "spec_mean [10, 12, 14, 12] = 12" "spec_mean [8, 6] = 7"
  "spec_pct (Suc (Suc 0)) (Suc (Suc (Suc (Suc 0)))) = 50" "spec_pct 0 (Suc (Suc 0)) = 0"
  by code_simp+

theorem forecast_buckets_by_date_witness:
  "\<not> isl (fst (ow_getForecast plain_num up_forecast paris Metric 3))
   \<and> map fd_date (days (projr (fst (ow_getForecast plain_num up_forecast paris Metric 3))))
       = [''2024-01-01'', ''2024-01-02'']
   \<and> map chanceOfRainPct (days (projr (fst (ow_getForecast plain_num up_forecast paris Metric 3))))
       = [Some 50, Some 0]
   \<and> map avgTempC (days (projr (fst (ow_getForecast plain_num up_forecast paris Metric 3))))
       = [Some 12, Some 7]
   \<and> map maxTempC (days (projr (fst (ow_getForecast plain_num up_forecast paris Metric 3))))
       = [Some 14, Some 8]
   \<and> map minTempC (days (projr (fst (ow_getForecast plain_num up_forecast paris Metric 3))))
       = [Some 10, Some 6]"
proof -
  let ?d = "\<lparr>of_name = Some ''Paris'', of_lat = 48.75, of_lon = 2.25,
             of_country = Some ''FR'', of_list = example_slots\<rparr>"
  have h: "resolveQueryParams paris = Inr (ByCity ''Paris'' None)"
    "ow_forecast_api up_forecast (ByCity ''Paris'' None) (unitsParam Metric) = Inr ?d"
    "\<forall>item \<in> set (of_list ?d). four_digit_year (dt item)"
    "(0::int) \<le> 3"
    by (simp_all add: resolveQueryParams_def paris_def up_forecast_def failing_upstream_def
          example_slots_def slot_at_def four_digit_year_def)
  from forecast_buckets_by_date [OF h, of plain_num] obtain fc where
    fc0: "ow_getForecast plain_num up_forecast paris Metric 3
          = (Inr fc, [OW_Forecast (ByCity ''Paris'' None) (unitsParam Metric)])"
    "map fd_date (days fc)
     = map day_text (take (nat 3) (sorted_list_of_set (utc_day ` set (of_list ?d))))"
    "list_all2 (\<lambda>day k. summarises Metric (on_day k (of_list ?d)) day) (days fc)
       (take (nat 3) (sorted_list_of_set (utc_day ` set (of_list ?d))))"
    by (elim exE conjE)
  have fc: "fst (ow_getForecast plain_num up_forecast paris Metric 3) = Inr fc"
    "map fd_date (days fc) = [''2024-01-01'', ''2024-01-02'']"
    "list_all2 (\<lambda>day k. summarises Metric (on_day k example_slots) day) (days fc)
       [19723, 19724]"
    using fc0 by (simp_all add: example_days example_day_text)
  from fc(3) obtain d1 d2 where ds: "days fc = [d1, d2]"
    and s1: "summarises Metric (on_day 19723 example_slots) d1"
    and s2: "summarises Metric (on_day 19724 example_slots) d2"
    by (auto simp: list_all2_Cons2)
  from s1 have v1: "chanceOfRainPct d1 = Some 50" "avgTempC d1 = Some 12"
    "maxTempC d1 = Some 14" "minTempC d1 = Some 10"
    by (simp_all add: summarises_def example_on_day slot_at_def slot_tempC_def
          slot_rain_def example_figures)
  from s2 have v2: "chanceOfRainPct d2 = Some 0" "avgTempC d2 = Some 7"
    "maxTempC d2 = Some 8" "minTempC d2 = Some 6"
    by (simp_all add: summarises_def example_on_day slot_at_def slot_tempC_def
          slot_rain_def example_figures)
  from fc(1,2) ds v1 v2 show ?thesis by simp
qed

text \<open>
  Beyond the year 9999 the date of a slot is not its day: \<open>toISOString\<close> writes such a year
  with a sign and six digits, and the first ten characters end within the month. The two
  slots of January 10000 fall on different UTC days and share one date and one bucket,
  which is listed before the day of 2024.
\<close>

lemma far_dates:
  "map slot_date far_slots = [''2024-01-01'', ''+010000-01'', ''+010000-01'']"
proof -
  have "toISODate (1704067200 * 1000) = ''2024-01-01''" by code_simp
  moreover have "toISODate (253402300800 * 1000) = ''+010000-01''" by code_simp
  moreover have "toISODate (253402732800 * 1000) = ''+010000-01''" by code_simp
  ultimately show ?thesis by (simp add: far_slots_def slot_at_def slot_date_def)
qed

lemma far_sorted_dates:
  "sorted_list_of_set (set (map slot_date far_slots)) = [''+010000-01'', ''2024-01-01'']"
proof -
  have "sorted_list_of_set (set [''2024-01-01'', ''+010000-01'', ''+010000-01''])
        = [''+010000-01'', ''2024-01-01'']"
    by code_simp
  then show ?thesis by (simp only: far_dates)
qed

lemma far_same_day:
  "same_day ''+010000-01'' far_slots
   = [slot_at 253402300800 20 None, slot_at 253402732800 30 None]"
  "same_day ''2024-01-01'' far_slots = [slot_at 1704067200 10 None]"
  using far_dates by (simp_all add: same_day_def far_slots_def)

lemma far_figures: "spec_mean [20, 30] = 25" "spec_mean [10] = 10"
  by code_simp+

theorem days_of_year_10000_merged_counterexample:
  "utc_day (far_slots ! 1) = 2932897 \<and> utc_day (far_slots ! 2) = 2932902
   \<and> js_time_valid (dt (far_slots ! 1) * 1000) \<and> js_time_valid (dt (far_slots ! 2) * 1000)
   \<and> \<not> isl (fst (ow_getForecast plain_num up_far paris Metric 3))
   \<and> map fd_date (days (projr (fst (ow_getForecast plain_num up_far paris Metric 3))))
       = [''+010000-01'', ''2024-01-01'']
   \<and> map avgTempC (days (projr (fst (ow_getForecast plain_num up_far paris Metric 3))))
       = [Some 25, Some 10]"
proof -
  have valid: "\<forall>item \<in> set far_slots. js_time_valid (dt item * 1000)"
    by (simp add: far_slots_def slot_at_def js_time_valid_def)
  from forecast_days_summary [OF valid, of 3 Metric] obtain ds where
    ds0: "forecast_days Metric 3 far_slots = Inr ds"
    "map fd_date ds = take (nat 3) (sorted_list_of_set (set (map slot_date far_slots)))"
    "\<forall>day \<in> set ds. same_day (fd_date day) far_slots \<noteq> []
        \<and> summarises Metric (same_day (fd_date day) far_slots) day"
    by auto
  from ds0(2) have dates: "map fd_date ds = [''+010000-01'', ''2024-01-01'']"
    by (simp only: far_sorted_dates) simp
  then obtain d1 d2 where ds: "ds = [d1, d2]" "fd_date d1 = ''+010000-01''"
    "fd_date d2 = ''2024-01-01''"
    by auto
  from ds0(3) ds have s1: "summarises Metric (same_day ''+010000-01'' far_slots) d1"
    and s2: "summarises Metric (same_day ''2024-01-01'' far_slots) d2"
    by auto
  from s1 have v1: "avgTempC d1 = Some 25"
    by (simp add: summarises_def far_same_day slot_at_def slot_tempC_def far_figures)
  from s2 have v2: "avgTempC d2 = Some 10"
    by (simp add: summarises_def far_same_day slot_at_def slot_tempC_def far_figures)
  have run: "fst (ow_getForecast plain_num up_far paris Metric 3)
             = Inr \<lparr>f_provider = ''openweather'',
                    f_location = \<lparr>loc_name = ''Paris'', loc_lat = 48.75, loc_lon = 2.25,
                                  loc_country = Some ''FR''\<rparr>,
                    days = ds\<rparr>"
    by (simp add: ow_getForecast_def resolveQueryParams_def paris_def up_far_def
          failing_upstream_def ds0(1))
  have days: "utc_day (far_slots ! 1) = 2932897" "utc_day (far_slots ! 2) = 2932902"
    by (simp_all add: far_slots_def slot_at_def utc_day_def)
  have ok: "js_time_valid (dt (far_slots ! 1) * 1000)" "js_time_valid (dt (far_slots ! 2) * 1000)"
    by (simp_all add: far_slots_def slot_at_def js_time_valid_def)
  from run dates ds v1 v2 days ok show ?thesis by simp
qed

text \<open>
  The figures are doubles, not exact numbers: 23 slots of 40 make 57.49999999999999 per
  cent in doubles, rounded to 57, where the exact 57.5 would go up to 58; and the mean of
  two samples is the rounded half of their rounded sum.
\<close>

lemma figures_are_doubles:
  "slot_pct 23 40 = Some 57"
  "round (real 23 / real 40 * 100) = 58"
  "js_mean [to_double 0.1, to_double 0.2] \<noteq> Some ((to_double 0.1 + to_double 0.2) / 2)"
  by code_simp+

end
